theory Spec2Isabelle
  imports Main "HOL-Library.Sublist" "HOL-Library.AList"
begin

section \<open>JSON values as the route handlers see them\<close>

text \<open>
  The handlers are TypeScript running on untyped JSON: a field may be absent
  (\<open>undefined\<close>, modelled by \<open>None\<close>) or hold any JSON value. Numbers only
  matter through their truthiness, so they are modelled as integers. An object
  is the list of its own properties, each key once.
\<close>

datatype json =
    JNull
  | JBool bool
  | JNum int
  | JStr string
  | JArr "json list"
  | JObj "(string \<times> json) list"

text \<open>JavaScript truthiness of a JSON value.\<close>

fun truthy :: "json \<Rightarrow> bool" where
  "truthy JNull = False"
| "truthy (JBool b) = b"
| "truthy (JNum n) = (n \<noteq> 0)"
| "truthy (JStr s) = (s \<noteq> [])"
| "truthy (JArr _) = True"
| "truthy (JObj _) = True"

text \<open>The value of a possibly undefined \<open>v\<close> when it is truthy, for
  \<open>if (v) text = v\<close> and \<open>v || fallback\<close>.\<close>

fun truthy_value :: "json option \<Rightarrow> json option" where
  "truthy_value None = None"
| "truthy_value (Some v) = (if truthy v then Some v else None)"

text \<open>Property access \<open>v.k\<close> on a value that is neither null nor undefined:
  objects look the key up, every other JSON value yields \<open>undefined\<close> for the
  keys the handlers use.\<close>

fun field :: "string \<Rightarrow> json \<Rightarrow> json option" where
  "field k (JObj kvs) = map_of kvs k"
| "field k _ = None"

text \<open>Optional chaining \<open>v?.k\<close> and \<open>v?.[0]\<close>: undefined on null and undefined.\<close>

fun opt_field :: "string \<Rightarrow> json option \<Rightarrow> json option" where
  "opt_field k None = None"
| "opt_field k (Some JNull) = None"
| "opt_field k (Some v) = field k v"

fun index0 :: "json \<Rightarrow> json option" where
  "index0 (JArr []) = None"
| "index0 (JArr (x # xs)) = Some x"
| "index0 (JStr []) = None"
| "index0 (JStr (c # cs)) = Some (JStr [c])"
| "index0 (JObj kvs) = map_of kvs ''0''"
| "index0 _ = None"

fun opt_index0 :: "json option \<Rightarrow> json option" where
  "opt_index0 None = None"
| "opt_index0 (Some JNull) = None"
| "opt_index0 (Some v) = index0 v"

text \<open>\<open>typeof v === 'object' && v !== null\<close>: objects and arrays.\<close>

fun is_object :: "json \<Rightarrow> bool" where
  "is_object (JObj _) = True"
| "is_object (JArr _) = True"
| "is_object _ = False"

text \<open>The whitespace class \<open>\s\<close> of JavaScript, on 8-bit characters, and
  \<open>String.prototype.trim\<close>.\<close>

definition is_space :: "char \<Rightarrow> bool" where
  "is_space c = (of_char c \<in> {9, 10, 11, 12, 13, 32, 160 :: nat})"

definition trim :: "string \<Rightarrow> string" where
  "trim s = rev (dropWhile is_space (rev (dropWhile is_space s)))"

section \<open>The Firestore store\<close>

text \<open>
  Documents are schemaless, so every field the handlers read is optional.
  Timestamps are abstract instants (\<open>nat\<close>); \<open>serverTimestamp()\<close> reads the
  store's clock, which every write advances. The messages subcollection of a
  session lives beside the session document, not inside it: deleting the
  document leaves it alone. A message document always carries \<open>createdAt\<close>:
  both writers set it, and the ordered query returns no document without it.
\<close>

record session_doc =
  s_ownerId :: "string option"
  s_userId :: "string option"
  s_sessionId :: "string option"
  s_title :: "json option"
  s_createdAt :: "nat option"
  s_updatedAt :: "nat option"
  s_status :: "string option"
  s_projectId :: "string option"

datatype sender = User | Assistant | System

record message_doc =
  m_sender :: sender
  m_text :: json
  m_createdAt :: nat
  m_role :: "sender option"
  m_metadata :: "json option"
  m_next_actions :: "json list option"

record project_doc =
  p_ownerId :: "string option"
  p_name :: "json option"
  p_description :: "json option"
  p_createdAt :: "nat option"
  p_updatedAt :: "nat option"
  p_sessionId :: "string option"
  p_storagePath :: "string option"
  p_previewURL :: "string option"
  p_isPublic :: "bool option"

text \<open>
  \<open>faults\<close> is the outcome of the coming Firestore round trips, one flag per
  call: \<open>True\<close> means the call throws. An exhausted list means no more faults.
  \<open>sessions\<close> is the collection as an association list; \<open>messages sid\<close> lists
  a subcollection in Firestore's default order, with distinct document ids; a
  new document is listed last. \<open>auto_id\<close> stands for the generated document
  ids.
\<close>

record firestore =
  sessions :: "(string \<times> session_doc) list"
  messages :: "string \<Rightarrow> (string \<times> message_doc) list"
  projects :: "string \<rightharpoonup> project_doc"
  clock :: nat
  next_id :: nat
  faults :: "bool list"

definition auto_id :: "nat \<Rightarrow> string" where
  "auto_id n = ''auto-'' @ replicate n (CHR ''i'')"

definition fs_call :: "firestore \<Rightarrow> bool \<times> firestore" where
  "fs_call db = (case faults db of [] \<Rightarrow> (False, db) | f # fs \<Rightarrow> (f, db\<lparr>faults := fs\<rparr>))"

definition healthy :: "firestore \<Rightarrow> bool" where
  "healthy db = list_all (\<lambda>f. \<not> f) (faults db)"

type_synonym 'a fs_result = "(string + 'a) \<times> firestore"

definition attempt :: "(firestore \<Rightarrow> 'a fs_result) \<Rightarrow> firestore \<Rightarrow> 'a fs_result" where
  "attempt op db =
     (case fs_call db of (f, db') \<Rightarrow> if f then (Inl ''firestore call failed'', db') else op db')"

definition session_get :: "string \<Rightarrow> firestore \<Rightarrow> session_doc option fs_result" where
  "session_get sid = attempt (\<lambda>db. (Inr (map_of (sessions db) sid), db))"

definition session_set :: "string \<Rightarrow> (nat \<Rightarrow> session_doc) \<Rightarrow> firestore \<Rightarrow> unit fs_result" where
  "session_set sid mk =
     attempt (\<lambda>db. (Inr (), db\<lparr>sessions := AList.update sid (mk (clock db)) (sessions db),
                                clock := Suc (clock db)\<rparr>))"

definition session_add :: "(nat \<Rightarrow> session_doc) \<Rightarrow> firestore \<Rightarrow> string fs_result" where
  "session_add mk =
     attempt (\<lambda>db. (Inr (auto_id (next_id db)),
                     db\<lparr>sessions := AList.update (auto_id (next_id db)) (mk (clock db)) (sessions db),
                        next_id := Suc (next_id db), clock := Suc (clock db)\<rparr>))"

text \<open>\<open>update({updatedAt: serverTimestamp()})\<close> throws on a missing document.\<close>

definition session_touch :: "string \<Rightarrow> firestore \<Rightarrow> unit fs_result" where
  "session_touch sid =
     attempt (\<lambda>db. case map_of (sessions db) sid of
                      None \<Rightarrow> (Inl ''NOT_FOUND'', db)
                    | Some d \<Rightarrow>
                        (Inr (), db\<lparr>sessions := AList.update sid (d\<lparr>s_updatedAt := Some (clock db)\<rparr>) (sessions db),
                                   clock := Suc (clock db)\<rparr>))"

definition session_delete :: "string \<Rightarrow> firestore \<Rightarrow> unit fs_result" where
  "session_delete sid = attempt (\<lambda>db. (Inr (), db\<lparr>sessions := AList.delete sid (sessions db)\<rparr>))"

text \<open>\<open>where('ownerId', '==', uid).orderBy('updatedAt', 'desc')\<close>: an ordered
  query skips documents that lack the ordering field.\<close>

definition stamp :: "nat option \<Rightarrow> nat" where
  "stamp t = (case t of None \<Rightarrow> 0 | Some n \<Rightarrow> n)"

definition sessions_of_owner :: "string \<Rightarrow> firestore \<Rightarrow> (string \<times> session_doc) list fs_result" where
  "sessions_of_owner uid =
     attempt (\<lambda>db. (Inr (rev (sort_key (\<lambda>e. stamp (s_updatedAt (snd e)))
                        (filter (\<lambda>e. s_ownerId (snd e) = Some uid \<and> s_updatedAt (snd e) \<noteq> None)
                           (sessions db)))), db))"

definition message_add :: "string \<Rightarrow> (nat \<Rightarrow> message_doc) \<Rightarrow> firestore \<Rightarrow> string fs_result" where
  "message_add sid mk =
     attempt (\<lambda>db. (Inr (auto_id (next_id db)),
                     db\<lparr>messages := (messages db)(sid := messages db sid @ [(auto_id (next_id db), mk (clock db))]),
                        next_id := Suc (next_id db), clock := Suc (clock db)\<rparr>))"

definition messages_limit_get :: "string \<Rightarrow> nat \<Rightarrow> firestore \<Rightarrow> (string \<times> message_doc) list fs_result" where
  "messages_limit_get sid n = attempt (\<lambda>db. (Inr (take n (messages db sid)), db))"

definition messages_ordered_get :: "string \<Rightarrow> firestore \<Rightarrow> (string \<times> message_doc) list fs_result" where
  "messages_ordered_get sid =
     attempt (\<lambda>db. (Inr (sort_key (\<lambda>e. m_createdAt (snd e)) (messages db sid)), db))"

definition batch_delete :: "string \<Rightarrow> string list \<Rightarrow> firestore \<Rightarrow> unit fs_result" where
  "batch_delete sid ids =
     attempt (\<lambda>db. (Inr (), db\<lparr>messages := (messages db)(sid := filter (\<lambda>m. fst m \<notin> set ids) (messages db sid))\<rparr>))"

definition project_get :: "string \<Rightarrow> firestore \<Rightarrow> project_doc option fs_result" where
  "project_get pid = attempt (\<lambda>db. (Inr (projects db pid), db))"

definition project_update :: "string \<Rightarrow> (nat \<Rightarrow> project_doc \<Rightarrow> project_doc) \<Rightarrow> firestore \<Rightarrow> unit fs_result" where
  "project_update pid upd =
     attempt (\<lambda>db. case projects db pid of
                      None \<Rightarrow> (Inl ''NOT_FOUND'', db)
                    | Some d \<Rightarrow> (Inr (), db\<lparr>projects := (projects db)(pid \<mapsto> upd (clock db) d),
                                            clock := Suc (clock db)\<rparr>))"

definition project_delete :: "string \<Rightarrow> firestore \<Rightarrow> unit fs_result" where
  "project_delete pid = attempt (\<lambda>db. (Inr (), db\<lparr>projects := (projects db)(pid := None)\<rparr>))"

section \<open>Requests, responses and authentication\<close>

text \<open>
  A request carries its \<open>Authorization\<close> header, the dynamic route segment
  and its body; \<open>body = None\<close> is a body on which \<open>request.json()\<close> throws.
  The identity provider is a parameter: \<open>verifyIdToken t\<close> is the uid the
  token decodes to, or \<open>None\<close> when the SDK call throws; \<open>admin_apps\<close> is
  \<open>admin.apps.length\<close>. A response is its status and a payload; the payloads
  keep the fields of the JSON bodies the handlers build.
\<close>

record request =
  authorization :: "string option"
  route_id :: string
  body :: "json option"

record auth_env =
  verifyIdToken :: "string \<Rightarrow> string option"
  admin_apps :: nat

record message_response =
  r_messageId :: string
  r_sender :: sender
  r_text :: json
  r_createdAt :: nat
  r_role :: "sender option"
  r_metadata :: "json option"
  r_next_actions :: "json list"

record session_detail =
  d_sessionId :: string
  d_ownerId :: "string option"
  d_title :: "json option"
  d_createdAt :: nat
  d_updatedAt :: nat
  d_status :: "string option"
  d_projectId :: "string option"
  d_messages :: "message_response list"

record session_summary =
  l_sessionId :: string
  l_title :: "json option"
  l_createdAt :: "nat option"
  l_updatedAt :: "nat option"
  l_status :: string
  l_ownerId :: "string option"

record assistant_message =
  a_messageId :: string
  a_text :: json
  a_next_actions :: "json list option"

record session_created =
  c_sessionId :: string
  c_ownerId :: string
  c_title :: json
  c_status :: string
  c_initialAssistantMessage :: "assistant_message option"

record project_detail =
  pd_projectId :: string
  pd_ownerId :: "string option"
  pd_name :: "json option"
  pd_description :: "json option"
  pd_createdAt :: nat
  pd_updatedAt :: nat
  pd_sessionId :: "string option"
  pd_storagePath :: "string option"
  pd_previewURL :: "string option"
  pd_isPublic :: "bool option"

record project_patched =
  pp_projectId :: string
  pp_name :: "json option"
  pp_description :: "json option"
  pp_updatedAt :: nat

text \<open>\<open>Unhandled\<close> is an exception that escapes the handler; the framework
  answers it with status 500.\<close>

datatype payload =
    NoContent
  | ErrorBody string
  | Unhandled
  | SessionDetail session_detail
  | SessionList "session_summary list"
  | SessionCreated session_created
  | AssistantMessage assistant_message
  | ProjectDetail project_detail
  | ProjectPatched project_patched
  | DownloadLink string string
  | GenerateStarted string string

record response =
  status :: nat
  payload :: payload

definition json_response :: "nat \<Rightarrow> payload \<Rightarrow> response" where
  "json_response st b = \<lparr>status = st, payload = b\<rparr>"

definition error_response :: "nat \<Rightarrow> string \<Rightarrow> response" where
  "error_response st msg = json_response st (ErrorBody msg)"

definition internal_error :: response where
  "internal_error = error_response 500 ''Internal Server Error''"

text \<open>An awaited Firestore call inside a \<open>try\<close> whose \<open>catch\<close> answers
  500 Internal Server Error.\<close>

definition or_500 :: "'a fs_result \<Rightarrow> ('a \<Rightarrow> firestore \<Rightarrow> response \<times> firestore) \<Rightarrow> response \<times> firestore" where
  "or_500 r k = (case r of (Inl e, db) \<Rightarrow> (internal_error, db) | (Inr a, db) \<Rightarrow> k a db)"

text \<open>\<open>s.split(sep)[1]\<close> for a string that starts with \<open>sep\<close>: the text
  between the leading separator and its next occurrence.\<close>

fun until_sep :: "string \<Rightarrow> string \<Rightarrow> string" where
  "until_sep sep [] = []"
| "until_sep sep (c # cs) = (if prefix sep (c # cs) then [] else c # until_sep sep cs)"

definition bearer_token :: "string \<Rightarrow> string" where
  "bearer_token a = until_sep ''Bearer '' (drop (length ''Bearer '') a)"

definition verifyAuthToken :: "'e auth_env_scheme \<Rightarrow> request \<Rightarrow> string option" where
  "verifyAuthToken env req =
     (case authorization req of
        None \<Rightarrow> None
      | Some a \<Rightarrow>
          if prefix ''Bearer '' a then
            (let idToken = bearer_token a in
             if idToken = [] then None else verifyIdToken env idToken)
          else None)"

text \<open>\<open>serializeTimestamp\<close> calls \<open>toDate()\<close> on the field and throws when the
  field is missing; the ISO rendering of an instant is left abstract.\<close>

definition serializeTimestamp :: "nat option \<Rightarrow> string + nat" where
  "serializeTimestamp t = (case t of None \<Rightarrow> Inl ''TypeError'' | Some n \<Rightarrow> Inr n)"

section \<open>/api/sessions/[sessionId]: GET and DELETE\<close>

definition message_view :: "string \<times> message_doc \<Rightarrow> message_response" where
  "message_view e =
     \<lparr>r_messageId = fst e, r_sender = m_sender (snd e), r_text = m_text (snd e),
      r_createdAt = m_createdAt (snd e), r_role = m_role (snd e), r_metadata = m_metadata (snd e),
      r_next_actions = (case m_next_actions (snd e) of None \<Rightarrow> [] | Some xs \<Rightarrow> xs)\<rparr>"

definition GET_session :: "'e auth_env_scheme \<Rightarrow> request \<Rightarrow> firestore \<Rightarrow> response \<times> firestore" where
  "GET_session env req db =
     (case verifyAuthToken env req of
        None \<Rightarrow> (error_response 401 ''Unauthorized'', db)
      | Some uid \<Rightarrow>
          let sessionId = route_id req in
          if sessionId = [] then (error_response 400 ''Session ID is required'', db)
          else
            or_500 (session_get sessionId db) (\<lambda>sessionDoc db1.
              case sessionDoc of
                None \<Rightarrow> (error_response 404 ''Session not found'', db1)
              | Some sessionData \<Rightarrow>
                  if s_ownerId sessionData \<noteq> Some uid then (error_response 403 ''Forbidden'', db1)
                  else
                    or_500 (messages_ordered_get sessionId db1) (\<lambda>docs db2.
                      case serializeTimestamp (s_createdAt sessionData) of
                        Inl e \<Rightarrow> (internal_error, db2)
                      | Inr created \<Rightarrow>
                          (case serializeTimestamp (s_updatedAt sessionData) of
                             Inl e \<Rightarrow> (internal_error, db2)
                           | Inr updated \<Rightarrow>
                               (json_response 200 (SessionDetail
                                  \<lparr>d_sessionId = sessionId, d_ownerId = s_ownerId sessionData,
                                   d_title = s_title sessionData, d_createdAt = created,
                                   d_updatedAt = updated, d_status = s_status sessionData,
                                   d_projectId = s_projectId sessionData,
                                   d_messages = map message_view docs\<rparr>), db2)))))"

definition DELETE_session :: "'e auth_env_scheme \<Rightarrow> request \<Rightarrow> firestore \<Rightarrow> response \<times> firestore" where
  "DELETE_session env req db =
     (case verifyAuthToken env req of
        None \<Rightarrow> (error_response 401 ''Unauthorized'', db)
      | Some uid \<Rightarrow>
          let sessionId = route_id req in
          if sessionId = [] then (error_response 400 ''Session ID is required'', db)
          else
            or_500 (session_get sessionId db) (\<lambda>sessionDoc db1.
              case sessionDoc of
                None \<Rightarrow> (json_response 204 NoContent, db1)
              | Some sessionData \<Rightarrow>
                  if s_ownerId sessionData \<noteq> Some uid then (error_response 403 ''Forbidden'', db1)
                  else
                    or_500 (messages_limit_get sessionId 500 db1) (\<lambda>snapshot db2.
                      or_500 (if snapshot \<noteq> [] then batch_delete sessionId (map fst snapshot) db2
                              else (Inr (), db2)) (\<lambda>_ db3.
                        or_500 (session_delete sessionId db3) (\<lambda>_ db4.
                          (json_response 204 NoContent, db4))))))"

section \<open>Outgoing HTTP calls\<close>

text \<open>
  The outcome of a request is a network error, an abort by the request's
  timeout, or a response with its status and its body read as JSON (\<open>None\<close>
  when \<open>json()\<close> throws). The network is a parameter of the environment; it
  answers a request knowing the requests the handler has sent before, so that
  a request sent again may fare differently. \<open>fetch\<close> is the handlers' only way
  to the network and records each request it sends.
\<close>

record fetch_request =
  f_url :: string
  f_method :: string
  f_headers :: "(string \<times> string) list"
  f_body :: json
  f_timeout :: "nat option"

datatype fetch_outcome = NetworkError | TimedOut | Responded nat "json option"

definition is_ok :: "nat \<Rightarrow> bool" where
  "is_ok st = (200 \<le> st \<and> st \<le> 299)"

record route_env = auth_env +
  network :: "fetch_request list \<Rightarrow> fetch_request \<Rightarrow> fetch_outcome"
  PROXY_URL :: string
  ADK_AGENT_URL :: string
  locale_now :: string
  JSON_parse :: "string \<Rightarrow> json option"
  JSON_stringify :: "json \<Rightarrow> string"

definition fetch ::
  "'e route_env_scheme \<Rightarrow> fetch_request \<Rightarrow> fetch_request list \<Rightarrow> fetch_outcome \<times> fetch_request list" where
  "fetch env fr sent = (network env sent fr, sent @ [fr])"

section \<open>Reading the final response out of an events array\<close>

text \<open>\<open>events.find(e => e.event_type === 'FINAL_RESPONSE')\<close>: reading the
  property of a \<open>null\<close> element throws.\<close>

fun find_final :: "json list \<Rightarrow> string + json option" where
  "find_final [] = Inr None"
| "find_final (JNull # es) = Inl ''TypeError''"
| "find_final (e # es) =
     (if field ''event_type'' e = Some (JStr ''FINAL_RESPONSE'') then Inr (Some e) else find_final es)"

text \<open>\<open>finalEvent?.content?.parts?.[0]?.text\<close>\<close>

definition final_text :: "json option \<Rightarrow> json option" where
  "final_text e = opt_field ''text'' (opt_index0 (opt_field ''parts'' (opt_field ''content'' e)))"

section \<open>/api/sessions: list and create\<close>

text \<open>
  Both handlers start by fetching the Admin SDK services through getters that
  return module constants; the 500 answer guarding that step cannot occur and
  is left out. The authentication is written inline in these handlers, without
  the empty-token check of \<open>verifyAuthToken\<close>.
\<close>

definition session_summary_of :: "string \<times> session_doc \<Rightarrow> session_summary" where
  "session_summary_of e =
     \<lparr>l_sessionId = fst e, l_title = s_title (snd e), l_createdAt = s_createdAt (snd e),
      l_updatedAt = s_updatedAt (snd e),
      l_status = (case s_status (snd e) of None \<Rightarrow> ''active''
                  | Some s \<Rightarrow> if s \<noteq> [] then s else ''active''),
      l_ownerId = s_ownerId (snd e)\<rparr>"

definition GET_sessions :: "'e auth_env_scheme \<Rightarrow> request \<Rightarrow> firestore \<Rightarrow> response \<times> firestore" where
  "GET_sessions env req db =
     (case authorization req of
        None \<Rightarrow> (error_response 401 ''Unauthorized'', db)
      | Some a \<Rightarrow>
          if \<not> prefix ''Bearer '' a then (error_response 401 ''Unauthorized'', db)
          else
            (case verifyIdToken env (bearer_token a) of
               None \<Rightarrow> (error_response 401 ''Unauthorized'', db)
             | Some userId \<Rightarrow>
                 (case sessions_of_owner userId db of
                    (Inl e, db1) \<Rightarrow> (error_response 500 e, db1)
                  | (Inr docs, db1) \<Rightarrow>
                      (json_response 200 (SessionList (map session_summary_of docs)), db1))))"

definition addAdminMessageToSession :: "string \<Rightarrow> sender \<Rightarrow> json \<Rightarrow> firestore \<Rightarrow> string fs_result" where
  "addAdminMessageToSession sessionId sndr txt db =
     (case message_add sessionId
             (\<lambda>t. \<lparr>m_sender = sndr, m_text = txt, m_createdAt = t, m_role = None,
                    m_metadata = None, m_next_actions = None\<rparr>) db of
        (Inl e, db1) \<Rightarrow> (Inl e, db1)
      | (Inr mid, db1) \<Rightarrow>
          (case session_touch sessionId db1 of
             (Inl e, db2) \<Rightarrow> (Inl e, db2)
           | (Inr _, db2) \<Rightarrow> (Inr mid, db2)))"

definition new_session_doc :: "string \<Rightarrow> json \<Rightarrow> nat \<Rightarrow> session_doc" where
  "new_session_doc userId title now =
     \<lparr>s_ownerId = Some userId, s_userId = None, s_sessionId = None, s_title = Some title,
      s_createdAt = Some now, s_updatedAt = Some now, s_status = Some ''active'',
      s_projectId = None\<rparr>"

definition agent_run_request :: "'e route_env_scheme \<Rightarrow> string \<Rightarrow> string \<Rightarrow> json \<Rightarrow> fetch_request" where
  "agent_run_request env userId sessionId initialMessage =
     \<lparr>f_url = ADK_AGENT_URL env @ ''/run'', f_method = ''POST'',
      f_headers = [(''Content-Type'', ''application/json'')],
      f_body = JObj [(''user_id'', JStr userId), (''session_id'', JStr sessionId),
                     (''new_message'', JObj [(''role'', JStr ''user''), (''text'', initialMessage)])],
      f_timeout = None\<rparr>"

text \<open>The text taken from the agent's answer to the initial message; an
  exception here is caught by the handler's inner \<open>catch\<close>.\<close>

definition initial_reply_text :: "json \<Rightarrow> string + json" where
  "initial_reply_text agentResult =
     (case opt_field ''events'' (Some agentResult) of
        Some (JArr es) \<Rightarrow>
          (case find_final es of
             Inl e \<Rightarrow> Inl e
           | Inr finalEvent \<Rightarrow>
               (case truthy_value (final_text finalEvent) of
                  Some t \<Rightarrow> Inr t
                | None \<Rightarrow> Inr (JStr ''Agent acknowledged.'')))
      | _ \<Rightarrow>
          (case truthy_value (opt_field ''text'' (opt_field ''final_response'' (Some agentResult))) of
             Some t \<Rightarrow> Inr t
           | None \<Rightarrow> Inr (JStr ''Agent acknowledged.'')))"

definition initial_exchange ::
  "'e route_env_scheme \<Rightarrow> string \<Rightarrow> string \<Rightarrow> json \<Rightarrow> firestore \<Rightarrow> assistant_message option \<times> firestore" where
  "initial_exchange env userId sessionId initialMessage db =
     (case fst (fetch env (agent_run_request env userId sessionId initialMessage) []) of
        Responded st rb \<Rightarrow>
          if is_ok st then
            (case rb of
               None \<Rightarrow> (None, db)
             | Some agentResult \<Rightarrow>
                 (case initial_reply_text agentResult of
                    Inl e \<Rightarrow> (None, db)
                  | Inr txt \<Rightarrow>
                      (case addAdminMessageToSession sessionId Assistant txt db of
                         (Inl e, db1) \<Rightarrow> (None, db1)
                       | (Inr mid, db1) \<Rightarrow>
                           (Some \<lparr>a_messageId = mid, a_text = txt, a_next_actions = None\<rparr>, db1))))
          else (None, db)
      | _ \<Rightarrow> (None, db))"

definition POST_sessions :: "'e route_env_scheme \<Rightarrow> request \<Rightarrow> firestore \<Rightarrow> response \<times> firestore" where
  "POST_sessions env req db =
     (case authorization req of
        None \<Rightarrow> (error_response 401 ''Unauthorized'', db)
      | Some a \<Rightarrow>
          if \<not> prefix ''Bearer '' a then (error_response 401 ''Unauthorized'', db)
          else
            (case verifyIdToken env (bearer_token a) of
               None \<Rightarrow> (error_response 401 ''Unauthorized'', db)
             | Some userId \<Rightarrow>
                 let initialMessage = opt_field ''message'' (body req);
                     sessionTitle = opt_field ''title'' (body req);
                     title = (case truthy_value sessionTitle of
                                Some t \<Rightarrow> t
                              | None \<Rightarrow> JStr (''Session started '' @ locale_now env))
                 in
                 (case session_add (new_session_doc userId title) db of
                    (Inl e, db1) \<Rightarrow> (error_response 500 e, db1)
                  | (Inr newSessionId, db1) \<Rightarrow>
                      (case truthy_value initialMessage of
                         None \<Rightarrow>
                           (json_response 201 (SessionCreated
                              \<lparr>c_sessionId = newSessionId, c_ownerId = userId, c_title = title,
                               c_status = ''active'', c_initialAssistantMessage = None\<rparr>), db1)
                       | Some msg \<Rightarrow>
                           (case addAdminMessageToSession newSessionId User msg db1 of
                              (Inl e, db2) \<Rightarrow> (error_response 500 e, db2)
                            | (Inr _, db2) \<Rightarrow>
                                (case initial_exchange env userId newSessionId msg db2 of
                                   (reply, db3) \<Rightarrow>
                                     (json_response 201 (SessionCreated
                                        \<lparr>c_sessionId = newSessionId, c_ownerId = userId, c_title = title,
                                         c_status = ''active'', c_initialAssistantMessage = reply\<rparr>), db3)))))))"

section \<open>/api/projects/[projectId]: GET, PATCH, DELETE and the download link\<close>

text \<open>
  The fields of a project that the handlers only pass through to the response
  (\<open>files\<close>, \<open>collaboratorIds\<close>, \<open>boltContainerId\<close>) are left out of
  \<open>project_doc\<close> and of the response. DELETE only logs the storage path.
\<close>

definition GET_project :: "'e auth_env_scheme \<Rightarrow> request \<Rightarrow> firestore \<Rightarrow> response \<times> firestore" where
  "GET_project env req db =
     (case verifyAuthToken env req of
        None \<Rightarrow> (error_response 401 ''Unauthorized'', db)
      | Some uid \<Rightarrow>
          let projectId = route_id req in
          if projectId = [] then (error_response 400 ''Project ID is required'', db)
          else
            or_500 (project_get projectId db) (\<lambda>projectDoc db1.
              case projectDoc of
                None \<Rightarrow> (error_response 404 ''Project not found'', db1)
              | Some projectData \<Rightarrow>
                  if p_ownerId projectData \<noteq> Some uid \<and> p_isPublic projectData \<noteq> Some True
                  then (error_response 403 ''Forbidden'', db1)
                  else
                    (case serializeTimestamp (p_createdAt projectData) of
                       Inl e \<Rightarrow> (internal_error, db1)
                     | Inr created \<Rightarrow>
                         (case serializeTimestamp (p_updatedAt projectData) of
                            Inl e \<Rightarrow> (internal_error, db1)
                          | Inr updated \<Rightarrow>
                              (json_response 200 (ProjectDetail
                                 \<lparr>pd_projectId = projectId, pd_ownerId = p_ownerId projectData,
                                  pd_name = p_name projectData,
                                  pd_description = p_description projectData,
                                  pd_createdAt = created, pd_updatedAt = updated,
                                  pd_sessionId = p_sessionId projectData,
                                  pd_storagePath = p_storagePath projectData,
                                  pd_previewURL = p_previewURL projectData,
                                  pd_isPublic = p_isPublic projectData\<rparr>), db1)))))"

text \<open>Destructuring \<open>const { name, description } = body\<close> throws on \<open>null\<close>.\<close>

definition patch_updates :: "json option \<Rightarrow> json option \<Rightarrow> nat \<Rightarrow> project_doc \<Rightarrow> project_doc" where
  "patch_updates name description now d =
     (let d1 = (case name of None \<Rightarrow> d | Some v \<Rightarrow> d\<lparr>p_name := Some v\<rparr>);
          d2 = (case description of None \<Rightarrow> d1 | Some v \<Rightarrow> d1\<lparr>p_description := Some v\<rparr>)
      in d2\<lparr>p_updatedAt := Some now\<rparr>)"

definition PATCH_project :: "'e auth_env_scheme \<Rightarrow> request \<Rightarrow> firestore \<Rightarrow> response \<times> firestore" where
  "PATCH_project env req db =
     (case verifyAuthToken env req of
        None \<Rightarrow> (error_response 401 ''Unauthorized'', db)
      | Some uid \<Rightarrow>
          let projectId = route_id req in
          if projectId = [] then (error_response 400 ''Project ID is required'', db)
          else
            (case body req of
               None \<Rightarrow> (internal_error, db)
             | Some JNull \<Rightarrow> (internal_error, db)
             | Some b \<Rightarrow>
                 let name = field ''name'' b; description = field ''description'' b in
                 or_500 (project_get projectId db) (\<lambda>projectDoc db1.
                   case projectDoc of
                     None \<Rightarrow> (error_response 404 ''Project not found'', db1)
                   | Some projectData \<Rightarrow>
                       if p_ownerId projectData \<noteq> Some uid then (error_response 403 ''Forbidden'', db1)
                       else if name = None \<and> description = None
                       then (error_response 400 ''No update fields provided'', db1)
                       else
                         or_500 (project_update projectId (patch_updates name description) db1) (\<lambda>_ db2.
                           or_500 (project_get projectId db2) (\<lambda>updatedDoc db3.
                             case updatedDoc of
                               None \<Rightarrow> (internal_error, db3)
                             | Some updatedData \<Rightarrow>
                                 (case serializeTimestamp (p_updatedAt updatedData) of
                                    Inl e \<Rightarrow> (internal_error, db3)
                                  | Inr updated \<Rightarrow>
                                      (json_response 200 (ProjectPatched
                                         \<lparr>pp_projectId = projectId, pp_name = p_name updatedData,
                                          pp_description = p_description updatedData,
                                          pp_updatedAt = updated\<rparr>), db3)))))))"

definition DELETE_project :: "'e auth_env_scheme \<Rightarrow> request \<Rightarrow> firestore \<Rightarrow> response \<times> firestore" where
  "DELETE_project env req db =
     (case verifyAuthToken env req of
        None \<Rightarrow> (error_response 401 ''Unauthorized'', db)
      | Some uid \<Rightarrow>
          let projectId = route_id req in
          if projectId = [] then (error_response 400 ''Project ID is required'', db)
          else
            or_500 (project_get projectId db) (\<lambda>projectDoc db1.
              case projectDoc of
                None \<Rightarrow> (json_response 204 NoContent, db1)
              | Some projectData \<Rightarrow>
                  if p_ownerId projectData \<noteq> Some uid then (error_response 403 ''Forbidden'', db1)
                  else
                    or_500 (project_delete projectId db1) (\<lambda>_ db2.
                      (json_response 204 NoContent, db2))))"

definition placeholder_bucket :: string where
  "placeholder_bucket = ''https://storage.googleapis.com/your-bucket/''"

definition GET_download :: "'e auth_env_scheme \<Rightarrow> request \<Rightarrow> firestore \<Rightarrow> response \<times> firestore" where
  "GET_download env req db =
     (case verifyAuthToken env req of
        None \<Rightarrow> (error_response 401 ''Unauthorized'', db)
      | Some uid \<Rightarrow>
          let projectId = route_id req in
          if projectId = [] then (error_response 400 ''Project ID is required'', db)
          else
            or_500 (project_get projectId db) (\<lambda>projectDoc db1.
              case projectDoc of
                None \<Rightarrow> (error_response 404 ''Project not found'', db1)
              | Some projectData \<Rightarrow>
                  if p_ownerId projectData \<noteq> Some uid then (error_response 403 ''Forbidden'', db1)
                  else
                    (case p_storagePath projectData of
                       None \<Rightarrow> (error_response 404 ''Project has no downloadable files (no storagePath)'', db1)
                     | Some storagePath \<Rightarrow>
                         if storagePath = []
                         then (error_response 404 ''Project has no downloadable files (no storagePath)'', db1)
                         else (json_response 200 (DownloadLink (placeholder_bucket @ storagePath)
                                 ''Download link generated successfully.''), db1))))"

section \<open>POST /api/sessions/[sessionId]/generate\<close>

text \<open>The usage check of the source is the constant \<open>canGenerate = true\<close>;
  the branch it guards is kept as written.\<close>

definition canGenerate :: bool where
  "canGenerate = True"

definition POST_generate :: "'e auth_env_scheme \<Rightarrow> request \<Rightarrow> firestore \<Rightarrow> response \<times> firestore" where
  "POST_generate env req db =
     (case verifyAuthToken env req of
        None \<Rightarrow> (error_response 401 ''Unauthorized'', db)
      | Some uid \<Rightarrow>
          let sessionId = route_id req in
          if sessionId = [] then (error_response 400 ''Session ID is required'', db)
          else
            (case body req of
               None \<Rightarrow> (internal_error, db)
             | Some b \<Rightarrow>
                 or_500 (session_get sessionId db) (\<lambda>sessionDoc db1.
                   if sessionDoc = None \<or> Option.bind sessionDoc s_ownerId \<noteq> Some uid
                   then (error_response 403 ''Forbidden or Session not found'', db1)
                   else if \<not> canGenerate
                   then (error_response 429 ''Usage limit exceeded'', db1)
                   else (json_response 202 (GenerateStarted ''generating'' ''Project generation initiated.''), db1))))"

section \<open>Server-side Firestore helpers of the messages flow\<close>

text \<open>
  \<open>addMessageToSession\<close> also checks that the Firestore handle is defined; it
  is a module constant, so that branch is left out. Both helpers wrap whatever
  Firestore throws in an error of their own.
\<close>

definition addMessageToSession ::
  "string \<Rightarrow> sender \<Rightarrow> json \<Rightarrow> json list option \<Rightarrow> json option \<Rightarrow> firestore \<Rightarrow> string fs_result" where
  "addMessageToSession sessionId sndr txt next_actions metadata db =
     (if sessionId = [] then (Inl ''Session ID is required to add a message.'', db)
      else
        (case message_add sessionId
                (\<lambda>t. \<lparr>m_sender = sndr, m_text = txt, m_createdAt = t, m_role = None,
                       m_metadata = truthy_value metadata,
                       m_next_actions = (case next_actions of
                                           None \<Rightarrow> None
                                         | Some xs \<Rightarrow> if xs \<noteq> [] then Some xs else None)\<rparr>) db of
           (Inl e, db1) \<Rightarrow> (Inl (''Failed to add message: '' @ e), db1)
         | (Inr mid, db1) \<Rightarrow>
             (case session_touch sessionId db1 of
                (Inl e, db2) \<Rightarrow> (Inl (''Failed to add message: '' @ e), db2)
              | (Inr _, db2) \<Rightarrow> (Inr mid, db2))))"

definition ensured_session_doc :: "string \<Rightarrow> string \<Rightarrow> nat \<Rightarrow> session_doc" where
  "ensured_session_doc sessionId userId now =
     \<lparr>s_ownerId = None, s_userId = Some userId, s_sessionId = Some sessionId, s_title = None,
      s_createdAt = Some now, s_updatedAt = Some now, s_status = Some ''active'',
      s_projectId = None\<rparr>"

definition ensureSessionExists :: "string \<Rightarrow> string \<Rightarrow> firestore \<Rightarrow> unit fs_result" where
  "ensureSessionExists sessionId userId db =
     (case session_get sessionId db of
        (Inl e, db1) \<Rightarrow> (Inl (''Failed to ensure session exists: '' @ e), db1)
      | (Inr (Some _), db1) \<Rightarrow> (Inr (), db1)
      | (Inr None, db1) \<Rightarrow>
          (case session_set sessionId (ensured_session_doc sessionId userId) db1 of
             (Inl e, db2) \<Rightarrow> (Inl (''Failed to ensure session exists: '' @ e), db2)
           | (Inr _, db2) \<Rightarrow> (Inr (), db2)))"

section \<open>extractResponseText\<close>

definition default_text :: string where
  "default_text = ''Sorry, I could not process your request.''"

text \<open>
  The match of \<open>/```json\s*([\s\S]*?)\s*```/\<close>, as its first capture group.
  The match starts at the first \<open>```json\<close>; the greedy \<open>\s*\<close> skips all the
  whitespace after it; the lazy group is the shortest text after which
  optional whitespace and \<open>```\<close> follow.
\<close>

definition closes :: "string \<Rightarrow> bool" where
  "closes s = prefix ''```'' (dropWhile is_space s)"

fun lazy_capture :: "string \<Rightarrow> string option" where
  "lazy_capture [] = (if closes [] then Some [] else None)"
| "lazy_capture (c # cs) =
     (if closes (c # cs) then Some [] else map_option ((#) c) (lazy_capture cs))"

fun after_open :: "string \<Rightarrow> string option" where
  "after_open [] = None"
| "after_open (c # cs) =
     (if prefix ''```json'' (c # cs) then Some (drop (length ''```json'') (c # cs))
      else after_open cs)"

definition json_fence :: "string \<Rightarrow> string option" where
  "json_fence s =
     (case after_open s of None \<Rightarrow> None | Some rest \<Rightarrow> lazy_capture (dropWhile is_space rest))"

text \<open>\<open>result.message.content\<close> when \<open>message\<close> and \<open>content\<close> are both
  non-null objects, the common guard of the first two conditionals.\<close>

definition message_content :: "json \<Rightarrow> json option" where
  "message_content result =
     (case field ''message'' result of
        None \<Rightarrow> None
      | Some m \<Rightarrow>
          if is_object m then
            (case field ''content'' m of
               None \<Rightarrow> None
             | Some c \<Rightarrow> if is_object c then Some c else None)
          else None)"

definition array_field :: "string \<Rightarrow> json \<Rightarrow> json list option" where
  "array_field k v = (case field k v of Some (JArr xs) \<Rightarrow> Some xs | _ \<Rightarrow> None)"

definition initial_next_actions :: "json \<Rightarrow> json list option" where
  "initial_next_actions result =
     (case Option.bind (message_content result) (array_field ''next_actions'') of
        Some xs \<Rightarrow> Some xs
      | None \<Rightarrow> array_field ''next_actions'' result)"

text \<open>\<open>result.message.content.parts[0]?.text\<close> under the guard of the first
  branch.\<close>

definition message_parts_text :: "json \<Rightarrow> json option" where
  "message_parts_text result =
     (case Option.bind (message_content result) (array_field ''parts'') of
        None \<Rightarrow> None
      | Some ps \<Rightarrow> truthy_value (opt_field ''text'' (index0 (JArr ps))))"

definition message_text :: "(json \<Rightarrow> string) \<Rightarrow> json \<Rightarrow> json" where
  "message_text stringify m =
     (case m of
        JStr s \<Rightarrow> JStr s
      | _ \<Rightarrow>
          if is_object m then
            (case field ''text'' m of
               Some (JStr s) \<Rightarrow> JStr s
             | _ \<Rightarrow> JStr (stringify m))
          else JStr (stringify m))"

definition probe_text :: "(json \<Rightarrow> string) \<Rightarrow> json \<Rightarrow> string + json" where
  "probe_text stringify result =
     (case message_parts_text result of
        Some t \<Rightarrow> Inr t
      | None \<Rightarrow>
          (case array_field ''events'' result of
             Some es \<Rightarrow>
               (case find_final es of
                  Inl e \<Rightarrow> Inl e
                | Inr finalEvent \<Rightarrow>
                    (case truthy_value (final_text finalEvent) of
                       Some t \<Rightarrow> Inr t
                     | None \<Rightarrow> Inr (JStr default_text)))
           | None \<Rightarrow>
               (case truthy_value (opt_field ''text'' (field ''final_response'' result)) of
                  Some t \<Rightarrow> Inr t
                | None \<Rightarrow>
                    (case field ''response'' result of
                       Some (JStr s) \<Rightarrow> Inr (JStr s)
                     | _ \<Rightarrow>
                         (case truthy_value (field ''text'' result) of
                            Some t \<Rightarrow> Inr t
                          | None \<Rightarrow>
                              (case truthy_value (field ''content'' result) of
                                 Some (JStr s) \<Rightarrow> Inr (JStr s)
                               | Some c \<Rightarrow> Inr (JStr (stringify c))
                               | None \<Rightarrow>
                                   (case truthy_value (field ''message'' result) of
                                      Some m \<Rightarrow> Inr (message_text stringify m)
                                    | None \<Rightarrow> Inr (JStr default_text))))))))"

text \<open>The fenced block: \<open>text.match\<close> exists on strings only; \<open>JSON.parse\<close>
  throwing, and reading a property of a parsed \<open>null\<close>, are caught and leave
  text and next actions as they were.\<close>

definition apply_fence ::
  "(string \<Rightarrow> json option) \<Rightarrow> json \<Rightarrow> json list option \<Rightarrow> string + json \<times> json list option" where
  "apply_fence parse txt next_actions =
     (case txt of
        JStr s \<Rightarrow>
          (case json_fence s of
             None \<Rightarrow> Inr (txt, next_actions)
           | Some captured \<Rightarrow>
               if captured = [] then Inr (txt, next_actions)
               else
                 (case parse captured of
                    None \<Rightarrow> Inr (txt, next_actions)
                  | Some JNull \<Rightarrow> Inr (txt, next_actions)
                  | Some parsedJson \<Rightarrow>
                      Inr (case truthy_value (field ''content'' parsedJson) of
                             Some c \<Rightarrow> c
                           | None \<Rightarrow> txt,
                           case array_field ''next_actions'' parsedJson of
                             Some xs \<Rightarrow> Some xs
                           | None \<Rightarrow> next_actions)))
      | _ \<Rightarrow> Inl ''TypeError'')"

definition extractResponseText ::
  "(string \<Rightarrow> json option) \<Rightarrow> (json \<Rightarrow> string) \<Rightarrow> json \<Rightarrow> string + json \<times> json list option" where
  "extractResponseText parse stringify result =
     (if \<not> truthy result then Inr (JStr default_text, None)
      else
        (case probe_text stringify result of
           Inl e \<Rightarrow> Inl e
         | Inr txt \<Rightarrow> apply_fence parse txt (initial_next_actions result)))"

section \<open>POST /api/sessions/[sessionId]/messages\<close>

definition unavailable_text :: string where
  "unavailable_text =
     ''I'm sorry, but I'm temporarily unable to process your request. The AI agent service is currently unavailable. Please try again later.''"

definition handleAgentUnavailable :: "string \<Rightarrow> string \<Rightarrow> json \<times> json" where
  "handleAgentUnavailable sessionId userMessageText =
     (JStr unavailable_text,
      JObj [(''error'', JStr ''agent_unavailable''), (''userMessage'', JStr userMessageText)])"

definition proxy_request :: "'e route_env_scheme \<Rightarrow> string \<Rightarrow> string \<Rightarrow> string \<Rightarrow> fetch_request" where
  "proxy_request env sessionId idToken userMessageText =
     \<lparr>f_url = PROXY_URL env @ ''/api/adk'', f_method = ''POST'',
      f_headers = [(''Content-Type'', ''application/json''), (''Authorization'', ''Bearer '' @ idToken)],
      f_body = JObj [(''sessionId'', JStr sessionId), (''userMessage'', JStr userMessageText)],
      f_timeout = Some 60000\<rparr>"

text \<open>The inner \<open>try\<close>: one \<open>fetch\<close>; a thrown fetch, a response that is not
  ok, a body that is not JSON and an exception of \<open>extractResponseText\<close> all
  end in the \<open>catch\<close> that takes the fallback. The requests sent so far are
  threaded through.\<close>

definition agent_reply ::
  "'e route_env_scheme \<Rightarrow> string \<Rightarrow> string \<Rightarrow> string \<Rightarrow> fetch_request list
     \<Rightarrow> (json \<times> json list option) \<times> fetch_request list" where
  "agent_reply env sessionId idToken userMessageText sent =
     (let fallback = (fst (handleAgentUnavailable sessionId userMessageText), None) in
      case fetch env (proxy_request env sessionId idToken userMessageText) sent of
        (Responded st rb, sent1) \<Rightarrow>
          if is_ok st then
            (case rb of
               None \<Rightarrow> (fallback, sent1)
             | Some adkResult \<Rightarrow>
                 (case extractResponseText (JSON_parse env) (JSON_stringify env) adkResult of
                    Inl e \<Rightarrow> (fallback, sent1)
                  | Inr extracted \<Rightarrow> (extracted, sent1)))
          else (fallback, sent1)
      | (_, sent1) \<Rightarrow> (fallback, sent1))"

text \<open>The outer \<open>try\<close> of the handler. Its last component is the list of the
  requests that \<open>fetch\<close> has sent.\<close>

definition exchange ::
  "'e route_env_scheme \<Rightarrow> string \<Rightarrow> string \<Rightarrow> string \<Rightarrow> string \<Rightarrow> firestore
     \<Rightarrow> response \<times> firestore \<times> fetch_request list" where
  "exchange env sessionId userId idToken userMessageText db =
     (case ensureSessionExists sessionId userId db of
        (Inl e, db1) \<Rightarrow> (error_response 500 e, db1, [])
      | (Inr _, db1) \<Rightarrow>
          (case addMessageToSession sessionId User (JStr userMessageText) None None db1 of
             (Inl e, db2) \<Rightarrow> (error_response 500 e, db2, [])
           | (Inr userMessageId, db2) \<Rightarrow>
               (case agent_reply env sessionId idToken userMessageText [] of
                  (reply, sent) \<Rightarrow>
                    (case addMessageToSession sessionId Assistant (fst reply) (snd reply) None db2 of
                       (Inl e, db3) \<Rightarrow> (error_response 500 e, db3, sent)
                     | (Inr assistantMessageId, db3) \<Rightarrow>
                         (json_response 200 (AssistantMessage
                            \<lparr>a_messageId = assistantMessageId, a_text = fst reply,
                             a_next_actions = snd reply\<rparr>), db3, sent)))))"

definition missing_message :: string where
  "missing_message = ''Missing or invalid '' @ [CHR 0x27] @ ''message'' @ [CHR 0x27] @ '' field in body''"

definition POST_message ::
  "'e route_env_scheme \<Rightarrow> request \<Rightarrow> firestore \<Rightarrow> response \<times> firestore \<times> fetch_request list" where
  "POST_message env req db =
     (let sessionId = route_id req in
      if sessionId = [] then (error_response 400 ''Session ID is required'', db, [])
      else
        (case authorization req of
           None \<Rightarrow> (error_response 401 ''Unauthorized'', db, [])
         | Some a \<Rightarrow>
             if \<not> prefix ''Bearer '' a then (error_response 401 ''Unauthorized'', db, [])
             else
               (case verifyIdToken env (bearer_token a) of
                  None \<Rightarrow>
                    if admin_apps env = 0
                    then (error_response 500 ''Admin SDK initialization failed'', db, [])
                    else (error_response 401 ''Unauthorized'', db, [])
                | Some userId \<Rightarrow>
                    (case body req of
                       None \<Rightarrow> (error_response 400 ''Invalid JSON body'', db, [])
                     | Some JNull \<Rightarrow> (json_response 500 Unhandled, db, [])
                     | Some requestBody \<Rightarrow>
                         (case field ''message'' requestBody of
                            Some (JStr userMessageText) \<Rightarrow>
                              if userMessageText = []
                              then (error_response 400 missing_message, db, [])
                              else exchange env sessionId userId (bearer_token a) userMessageText db
                          | _ \<Rightarrow> (error_response 400 missing_message, db, []))))))"

section \<open>The probing as the specification words it\<close>


















section \<open>POST /api/adk: what is forwarded to the agent service\<close>

text \<open>
  The configuration read from the process environment, the service
  credentials and \<open>uuid()\<close> are parameters. \<open>fetchIdToken\<close> is the Cloud Run
  identity token of the service account (\<open>None\<close> when obtaining it throws),
  \<open>admin_access_token\<close> the access token of the Firebase Admin credential.
  \<open>session_text_readable\<close> tells whether \<open>response.text()\<close> returns on the
  answer to the session request, and \<open>json_error\<close> is the message of the error
  that \<open>request.json()\<close> throws on a body that is not JSON.
\<close>

record adk_env =
  useCloudADK :: bool
  NO_ADK_AUTH :: bool
  debugMode :: bool
  adkURL :: string
  adkEndpoint :: string
  fetchIdToken :: "string option"
  admin_access_token :: "string option"
  uuid :: string
  adk_fetch :: "fetch_request \<Rightarrow> fetch_outcome"
  session_text_readable :: bool
  json_error :: string

definition bypassAuth :: "adk_env \<Rightarrow> bool" where
  "bypassAuth env = (if useCloudADK env then False else NO_ADK_AUTH env)"

definition getFirebaseAdminToken :: "adk_env \<Rightarrow> string option" where
  "getFirebaseAdminToken env = admin_access_token env"

definition getCloudRunIdToken :: "adk_env \<Rightarrow> string option" where
  "getCloudRunIdToken env =
     (if \<not> useCloudADK env then getFirebaseAdminToken env
      else (case fetchIdToken env of Some t \<Rightarrow> Some t | None \<Rightarrow> getFirebaseAdminToken env))"

definition session_request :: "adk_env \<Rightarrow> string \<Rightarrow> string \<Rightarrow> string \<Rightarrow> (string \<times> string) list \<Rightarrow> fetch_request" where
  "session_request env appName userId sessionId authHeaders =
     \<lparr>f_url = adkURL env @ ''/apps/'' @ appName @ ''/users/'' @ userId @ ''/sessions/'' @ sessionId,
      f_method = ''POST'',
      f_headers = AList.update ''Content-Type'' ''application/json'' authHeaders,
      f_body = JObj [(''state'', JObj [])],
      f_timeout = None\<rparr>"

text \<open>In debug mode the answer is logged first and only the statuses 200 and
  400 count; when reading the answer for the log throws, the handler goes on to
  the check of the other mode.\<close>

definition ensureSession :: "adk_env \<Rightarrow> string \<Rightarrow> string \<Rightarrow> string \<Rightarrow> (string \<times> string) list \<Rightarrow> bool" where
  "ensureSession env appName userId sessionId authHeaders =
     (case adk_fetch env (session_request env appName userId sessionId authHeaders) of
        Responded st rb \<Rightarrow>
          if debugMode env \<and> session_text_readable env then st = 200 \<or> st = 400
          else is_ok st \<or> st = 400
      | _ \<Rightarrow> False)"

text \<open>\<open>finalSessionId = sessionId || uuid()\<close> and
  \<open>userId = `user-${finalSessionId.substring(0, 8)}`\<close>; \<open>substring\<close> exists on
  strings only.\<close>

definition final_session_id :: "adk_env \<Rightarrow> json \<Rightarrow> json" where
  "final_session_id env requestData =
     (case truthy_value (field ''sessionId'' requestData) of Some v \<Rightarrow> v | None \<Rightarrow> JStr (uuid env))"

definition adk_user_id :: "string \<Rightarrow> string" where
  "adk_user_id finalSessionId = ''user-'' @ take 8 finalSessionId"

definition adk_message :: "json \<Rightarrow> json option" where
  "adk_message requestData =
     (case truthy_value (field ''message'' requestData) of
        Some m \<Rightarrow> Some m
      | None \<Rightarrow> field ''userMessage'' requestData)"

text \<open>The two variants of the route word the missing token differently.\<close>

definition token_missing :: "bool \<Rightarrow> string" where
  "token_missing streaming =
     (if streaming then ''Failed to obtain auth token'' else ''Failed to obtain authentication token'')"

definition adk_auth_headers ::
  "bool \<Rightarrow> adk_env \<Rightarrow> (string \<times> string) list \<Rightarrow> response + (string \<times> string) list" where
  "adk_auth_headers streaming env headers =
     (if useCloudADK env then
        (case getCloudRunIdToken env of
           None \<Rightarrow> Inl (error_response 500 (token_missing streaming @ '' for Cloud ADK''))
         | Some idToken \<Rightarrow>
             if idToken = [] then Inl (error_response 500 (token_missing streaming @ '' for Cloud ADK''))
             else Inr (headers @ [(''Authorization'', ''Bearer '' @ idToken)]))
      else if \<not> bypassAuth env then
        (case getFirebaseAdminToken env of
           None \<Rightarrow> Inl (error_response 500 (token_missing streaming))
         | Some token \<Rightarrow>
             if token = [] then Inl (error_response 500 (token_missing streaming))
             else Inr (headers @ [(''Authorization'', ''Bearer '' @ token)]))
      else Inr headers)"

definition run_payload :: "string \<Rightarrow> string \<Rightarrow> string \<Rightarrow> string \<Rightarrow> (string \<times> json) list" where
  "run_payload appName userId sessionId message =
     [(''app_name'', JStr appName), (''user_id'', JStr userId), (''session_id'', JStr sessionId),
      (''new_message'', JObj [(''role'', JStr ''user''),
                              (''parts'', JArr [JObj [(''text'', JStr (trim message))]])])]"

text \<open>
  The handler up to its call of the agent: either it answers early, or it has
  sent the session request and the run request listed in the result and goes
  on to read the answer. The first flag selects the streaming variant of the
  route (\<open>/run_sse\<close>, with \<open>streaming: true\<close>) or the plain one.
\<close>

text \<open>The outer \<open>catch\<close> answers 500 with the message of the exception after a
  prefix of the variant. The exceptions before the call of the agent are the one
  of \<open>request.json()\<close> and two type errors, whose messages are those of the
  JavaScript engine.\<close>

definition caught :: "bool \<Rightarrow> string \<Rightarrow> response" where
  "caught streaming msg =
     error_response 500
       ((if streaming then ''Error in ADK API route: '' else ''Error connecting to ADK agent: '') @ msg)"

definition null_body_message :: string where
  "null_body_message = ''Cannot read properties of null (reading 'sessionId')''"

definition no_substring_message :: string where
  "no_substring_message = ''finalSessionId.substring is not a function''"

definition POST_adk_forward :: "bool \<Rightarrow> adk_env \<Rightarrow> request \<Rightarrow> response + fetch_request list" where
  "POST_adk_forward streaming env req =
     (case body req of
        None \<Rightarrow> Inl (caught streaming (json_error env))
      | Some JNull \<Rightarrow> Inl (caught streaming null_body_message)
      | Some requestData \<Rightarrow>
          (case final_session_id env requestData of
             JStr finalSessionId \<Rightarrow>
               (let userId = adk_user_id finalSessionId in
                case adk_message requestData of
                  Some (JStr message) \<Rightarrow>
                    if message = [] \<or> trim message = []
                    then Inl (error_response 400 ''Please provide a non-empty message'')
                    else
                      (case adk_auth_headers streaming env
                              ([(''Content-Type'', ''application/json'')] @
                               (if streaming then [(''Accept'', ''text/event-stream'')] else [])) of
                         Inl r \<Rightarrow> Inl r
                       | Inr headers \<Rightarrow>
                           if \<not> ensureSession env ''ai-agent'' userId finalSessionId headers
                           then Inl (error_response 500 ''Failed to create or verify session'')
                           else
                             Inr [session_request env ''ai-agent'' userId finalSessionId headers,
                                  \<lparr>f_url = (if streaming then adkURL env @ ''/run_sse''
                                            else adkURL env @ adkEndpoint env),
                                   f_method = ''POST'', f_headers = headers,
                                   f_body = JObj (run_payload ''ai-agent'' userId finalSessionId message @
                                                  (if streaming then [(''streaming'', JBool True)] else [])),
                                   f_timeout = None\<rparr>])
                | _ \<Rightarrow> Inl (error_response 400 ''Please provide a non-empty message''))
           | _ \<Rightarrow> Inl (caught streaming no_substring_message)))"

section \<open>Predicates of the statements\<close>

text \<open>\<open>same_documents\<close>: a handler left every document of the store as it
  was (the clock and the pending faults may have moved).\<close>

definition same_documents :: "firestore \<Rightarrow> firestore \<Rightarrow> bool" where
  "same_documents db db' =
     (sessions db' = sessions db \<and> messages db' = messages db \<and> projects db' = projects db)"

text \<open>What a stored message says, apart from its id and its instant; and the
  outcomes of the call to the agent proxy that count as its failure.\<close>

definition message_gist :: "string \<times> message_doc \<Rightarrow> sender \<times> json \<times> json list option" where
  "message_gist e = (m_sender (snd e), m_text (snd e), m_next_actions (snd e))"

definition agent_call_failed :: "fetch_outcome \<Rightarrow> bool" where
  "agent_call_failed out =
     (case out of NetworkError \<Rightarrow> True | TimedOut \<Rightarrow> True | Responded st rb \<Rightarrow> \<not> is_ok st)"

definition valid_status :: "string option \<Rightarrow> bool" where
  "valid_status st = (st = Some ''active'' \<or> st = Some ''archived'' \<or> st = Some ''completed'')"

definition session_wf :: "session_doc \<Rightarrow> bool" where
  "session_wf d = (valid_status (s_status d) \<and> s_createdAt d \<noteq> None \<and> s_updatedAt d \<noteq> None)"

text \<open>The shape the specification states, which also demands a title.\<close>

definition session_as_specified :: "session_doc \<Rightarrow> bool" where
  "session_as_specified d = (session_wf d \<and> s_title d \<noteq> None)"

definition sessions_wf :: "firestore \<Rightarrow> bool" where
  "sessions_wf db = list_all (\<lambda>e. session_wf (snd e)) (sessions db)"

text \<open>The fields of a session document that only its creation writes.\<close>

definition session_core :: "session_doc \<Rightarrow> string option \<times> json option \<times> string option \<times> nat option" where
  "session_core d = (s_status d, s_title d, s_ownerId d, s_createdAt d)"

section \<open>Example data\<close>

definition request_of :: "string \<Rightarrow> string \<Rightarrow> json option \<Rightarrow> request" where
  "request_of tok rid b = \<lparr>authorization = Some (''Bearer '' @ tok), route_id = rid, body = b\<rparr>"

definition example_env :: auth_env where
  "example_env =
     \<lparr>verifyIdToken = (\<lambda>t. if t = ''tok-alice'' then Some ''alice''
                           else if t = ''tok-bob'' then Some ''bob'' else None),
      admin_apps = 1\<rparr>"

definition empty_store :: firestore where
  "empty_store = \<lparr>sessions = [], messages = (\<lambda>_. []), projects = Map.empty,
                  clock = 0, next_id = 0, faults = []\<rparr>"

definition alice_session :: session_doc where
  "alice_session = \<lparr>s_ownerId = Some ''alice'', s_userId = None, s_sessionId = None,
     s_title = Some (JStr ''Plan''), s_createdAt = Some 1, s_updatedAt = Some 2,
     s_status = Some ''active'', s_projectId = None\<rparr>"

definition user_message :: "nat \<Rightarrow> message_doc" where
  "user_message t = \<lparr>m_sender = User, m_text = JStr ''hello'', m_createdAt = t,
     m_role = None, m_metadata = None, m_next_actions = None\<rparr>"

definition short_store :: firestore where
  "short_store = empty_store
     \<lparr>sessions := [(''s1'', alice_session)],
      messages := (\<lambda>_. [])(''s1'' := [(''m1'', user_message 7), (''m2'', user_message 3)])\<rparr>"


definition long_store :: firestore where
  "long_store = empty_store
     \<lparr>sessions := [(''s1'', alice_session)],
      messages := (\<lambda>_. [])(''s1'' := map (\<lambda>i. (auto_id i, user_message i)) [0..<501])\<rparr>"

definition alice_project :: project_doc where
  "alice_project = \<lparr>p_ownerId = Some ''alice'', p_name = Some (JStr ''Shop''),
     p_description = None, p_createdAt = Some 4, p_updatedAt = Some 5,
     p_sessionId = Some ''s1'', p_storagePath = Some ''zips/shop.zip'', p_previewURL = None,
     p_isPublic = None\<rparr>"

definition project_store :: "project_doc \<Rightarrow> firestore" where
  "project_store pd = short_store\<lparr>projects := [''p1'' \<mapsto> pd]\<rparr>"

text \<open>Two fenced answers of the agent and what \<open>JSON.parse\<close> makes of the
  blocks inside them.\<close>

definition zero_content_json :: string where
  "zero_content_json = ''{'' @ [CHR 0x22] @ ''content'' @ [CHR 0x22] @ '':0}''"

definition done_json :: string where
  "done_json = ''{'' @ [CHR 0x22] @ ''content'' @ [CHR 0x22] @ '':'' @ [CHR 0x22] @ ''Done'' @ [CHR 0x22]
     @ '','' @ [CHR 0x22] @ ''next_actions'' @ [CHR 0x22] @ '':['' @ [CHR 0x22] @ ''Deploy'' @ [CHR 0x22] @ '']}''"


definition example_parse :: "string \<Rightarrow> json option" where
  "example_parse s =
     (if s = zero_content_json then Some (JObj [(''content'', JNum 0)])
      else if s = done_json
      then Some (JObj [(''content'', JStr ''Done''), (''next_actions'', JArr [JStr ''Deploy''])])
      else None)"

definition example_stringify :: "json \<Rightarrow> string" where
  "example_stringify v = ''{}''"


definition example_route_env :: "(fetch_request list \<Rightarrow> fetch_request \<Rightarrow> fetch_outcome) \<Rightarrow> route_env" where
  "example_route_env f =
     \<lparr>verifyIdToken = (\<lambda>t. if t = ''tok-alice'' then Some ''alice''
                           else if t = ''tok-bob'' then Some ''bob'' else None),
      admin_apps = 1, network = f, PROXY_URL = ''http://localhost:3000'',
      ADK_AGENT_URL = ''http://localhost:8000'', locale_now = ''1/1/2025, 9:00:00 AM'',
      JSON_parse = example_parse, JSON_stringify = example_stringify\<rparr>"

definition failing_agent_env :: route_env where
  "failing_agent_env = example_route_env (\<lambda>_ _. Responded 503 None)"


definition answering_agent_env :: route_env where
  "answering_agent_env =
     example_route_env (\<lambda>_ _. Responded 200 (Some (JObj [(''text'', JStr ''hi there'')])))"

definition hello_request :: request where
  "hello_request = request_of ''tok-alice'' ''s1'' (Some (JObj [(''message'', JStr ''hello'')]))"

definition first_message_request :: request where
  "first_message_request = request_of ''tok-alice'' ''s9'' (Some (JObj [(''message'', JStr ''hello'')]))"

definition titled_request :: request where
  "titled_request = request_of ''tok-alice'' [] (Some (JObj [(''title'', JStr ''Trip'')]))"

definition example_adk_env :: adk_env where
  "example_adk_env =
     \<lparr>useCloudADK = False, NO_ADK_AUTH = True, debugMode = False, adkURL = ''http://adk'',
      adkEndpoint = ''/run'', fetchIdToken = None, admin_access_token = None,
      uuid = ''123e4567-e89b-12d3-a456-426614174000'',
      adk_fetch = (\<lambda>_. Responded 200 (Some (JObj []))), session_text_readable = True,
      json_error = ''Unexpected end of JSON input''\<rparr>"

definition chat_body :: json where
  "chat_body = JObj [(''sessionId'', JStr ''abcdefghijkl''), (''userMessage'', JStr ''hi'')]"

definition other_chat_body :: json where
  "other_chat_body = JObj [(''sessionId'', JStr ''abcdefghijkl''), (''message'', JStr ''what next?'')]"
section \<open>Basic facts about the store\<close>

lemma healthy_faults [simp]: "healthy (db\<lparr>faults := fs\<rparr>) = list_all (\<lambda>f. \<not> f) fs"
  by (simp add: healthy_def)

lemma healthy_update [simp]:
  "healthy (db\<lparr>sessions := s\<rparr>) = healthy db"
  "healthy (db\<lparr>messages := m\<rparr>) = healthy db"
  "healthy (db\<lparr>projects := p\<rparr>) = healthy db"
  "healthy (db\<lparr>clock := c\<rparr>) = healthy db"
  "healthy (db\<lparr>next_id := n\<rparr>) = healthy db"
  by (simp_all add: healthy_def)

lemma list_all_tl [simp]: "list_all P xs \<Longrightarrow> list_all P (tl xs)"
  by (cases xs) auto

lemma healthy_faults_ok [simp]: "healthy db \<Longrightarrow> list_all (\<lambda>f. \<not> f) (faults db)"
  by (simp add: healthy_def)

lemma healthy_fs_call:
  "healthy db \<Longrightarrow> fs_call db = (False, db\<lparr>faults := tl (faults db)\<rparr>)"
  by (cases "faults db") (auto simp: fs_call_def healthy_def)

lemma attempt_healthy:
  "healthy db \<Longrightarrow> attempt op db = op (db\<lparr>faults := tl (faults db)\<rparr>)"
  by (simp add: attempt_def healthy_fs_call)

lemmas store_ops =
  session_get_def session_set_def session_add_def session_touch_def session_delete_def
  sessions_of_owner_def message_add_def messages_limit_get_def messages_ordered_get_def
  batch_delete_def project_get_def project_update_def project_delete_def

lemmas responses = json_response_def error_response_def internal_error_def

lemma filter_first_ids:
  "distinct (map fst xs) \<Longrightarrow> filter (\<lambda>m. fst m \<notin> fst ` set (take n xs)) xs = drop n xs"
proof (induction xs arbitrary: n)
  case Nil
  then show ?case by simp
next
  case (Cons x xs)
  show ?case
  proof (cases n)
    case 0
    then show ?thesis by simp
  next
    case (Suc k)
    from Cons.prems have d: "distinct (map fst xs)" and nx: "fst x \<notin> fst ` set xs" by auto
    have "filter (\<lambda>m. fst m \<notin> fst ` set (take n (x # xs))) (x # xs)
          = filter (\<lambda>m. fst m \<noteq> fst x \<and> fst m \<notin> fst ` set (take k xs)) xs"
      using Suc by simp
    also have "\<dots> = filter (\<lambda>m. fst m \<notin> fst ` set (take k xs)) xs"
      using nx by (intro filter_cong) (force simp: image_iff)+
    also have "\<dots> = drop k xs" using Cons.IH[OF d] .
    finally show ?thesis using Suc by simp
  qed
qed

lemma inj_auto_id: "inj auto_id"
  by (rule injI) (auto simp: auto_id_def dest: arg_cong[where f = length])

lemma verify_alice: "verifyAuthToken example_env (request_of ''tok-alice'' rid b) = Some ''alice''"
  by (simp add: verifyAuthToken_def request_of_def example_env_def bearer_token_def)

lemma verify_bob: "verifyAuthToken example_env (request_of ''tok-bob'' rid b) = Some ''bob''"
  by (simp add: verifyAuthToken_def request_of_def example_env_def bearer_token_def)

lemma healthy_empty_store: "healthy empty_store"
  by (simp add: empty_store_def healthy_def)

lemma healthy_short_store: "healthy short_store"
  by (simp add: short_store_def empty_store_def healthy_def)

lemma healthy_project_store: "healthy (project_store pd)"
  by (simp add: project_store_def short_store_def empty_store_def healthy_def)


section \<open>Deleting sessions and projects\<close>

text \<open>
  Claim C10. A successful DELETE of a session removes the first 500 documents of
  its messages subcollection (one batch, \<open>limit(500)\<close>) and then the session
  document. For the owner of an existing session the answer is 204 or, when a
  Firestore call throws, 500; it is 204 on a store whose calls succeed. Whenever
  it is 204 the session document is gone and exactly the messages beyond the
  first 500 remain: a session with more than 500 messages leaves orphans
  behind. Document ids within the subcollection are distinct, as Firestore
  guarantees.
\<close>

theorem DELETE_session_leaves_orphans:
  assumes auth: "verifyAuthToken env req = Some uid"
    and sid: "route_id req \<noteq> []"
    and doc: "map_of (sessions db) (route_id req) = Some sd"
    and own: "s_ownerId sd = Some uid"
    and ids: "distinct (map fst (messages db (route_id req)))"
  shows "(healthy db \<longrightarrow> status (fst (DELETE_session env req db)) = 204)
       \<and> (status (fst (DELETE_session env req db)) = 204 \<or> status (fst (DELETE_session env req db)) = 500)
       \<and> (status (fst (DELETE_session env req db)) = 204 \<longrightarrow>
            map_of (sessions (snd (DELETE_session env req db))) (route_id req) = None
          \<and> messages (snd (DELETE_session env req db)) (route_id req) = drop 500 (messages db (route_id req))
          \<and> length (messages (snd (DELETE_session env req db)) (route_id req))
              = length (messages db (route_id req)) - 500)"
proof (intro conjI impI)
  assume "healthy db"
  then show "status (fst (DELETE_session env req db)) = 204"
    using assms
    by (auto simp: DELETE_session_def store_ops or_500_def attempt_healthy responses Let_def)
next
  show "status (fst (DELETE_session env req db)) = 204 \<or> status (fst (DELETE_session env req db)) = 500"
    using assms
    by (auto simp: DELETE_session_def store_ops or_500_def attempt_def fs_call_def responses Let_def
        split: list.splits if_splits)
next
  assume s: "status (fst (DELETE_session env req db)) = 204"
  have "map_of (sessions (snd (DELETE_session env req db))) (route_id req) = None
      \<and> messages (snd (DELETE_session env req db)) (route_id req) = drop 500 (messages db (route_id req))"
    using assms s
    by (auto simp: DELETE_session_def store_ops or_500_def attempt_def fs_call_def responses Let_def
        filter_first_ids delete_conv' split: list.splits if_splits)
  then show "map_of (sessions (snd (DELETE_session env req db))) (route_id req) = None"
    and "messages (snd (DELETE_session env req db)) (route_id req) = drop 500 (messages db (route_id req))"
    and "length (messages (snd (DELETE_session env req db)) (route_id req))
              = length (messages db (route_id req)) - 500"
    by simp_all
qed

theorem DELETE_session_leaves_orphans_witness:
  "status (fst (DELETE_session example_env (request_of ''tok-alice'' ''s1'' None) long_store)) = 204
   \<and> map_of (sessions (snd (DELETE_session example_env (request_of ''tok-alice'' ''s1'' None) long_store))) ''s1'' = None
   \<and> length (messages (snd (DELETE_session example_env (request_of ''tok-alice'' ''s1'' None) long_store)) ''s1'') = 1"
proof -
  let ?req = "request_of ''tok-alice'' ''s1'' None"
  have h1: "verifyAuthToken example_env ?req = Some ''alice''" by (rule verify_alice)
  have h2: "route_id ?req \<noteq> []" by (simp add: request_of_def)
  have h3: "map_of (sessions long_store) (route_id ?req) = Some alice_session"
    by (simp add: request_of_def long_store_def empty_store_def)
  have h4: "s_ownerId alice_session = Some ''alice''" by (simp add: alice_session_def)
  have h5: "healthy long_store" by (simp add: long_store_def empty_store_def healthy_def)
  have h6: "distinct (map fst (messages long_store (route_id ?req)))"
    by (simp add: request_of_def long_store_def empty_store_def comp_def distinct_map
        inj_on_subset[OF inj_auto_id])
  have len: "length (messages long_store ''s1'') = 501"
    by (simp add: long_store_def empty_store_def)
  have rid: "route_id ?req = ''s1''" by (simp add: request_of_def)
  from DELETE_session_leaves_orphans[OF h1 h2 h3 h4 h6] h5 show ?thesis
    by (simp add: rid len)
qed

text \<open>
  Claim C9. DELETE is idempotent at the interface. For an authenticated
  request, when the session (or project) document does not exist the handler
  leaves every document as it was and makes no ownership check; it answers 204,
  or 500 in case the read itself throws. On a store whose calls succeed the
  owner's DELETE of an existing session (or project) and the same request
  repeated both answer 204.
\<close>

theorem DELETE_missing_is_no_content:
  assumes auth: "verifyAuthToken env req = Some uid"
    and rid: "route_id req \<noteq> []"
  shows "(map_of (sessions db) (route_id req) = None \<longrightarrow>
            same_documents db (snd (DELETE_session env req db))
          \<and> (fst (DELETE_session env req db) = json_response 204 NoContent
              \<or> fst (DELETE_session env req db) = internal_error)
          \<and> (healthy db \<longrightarrow> fst (DELETE_session env req db) = json_response 204 NoContent))
       \<and> (projects db (route_id req) = None \<longrightarrow>
            same_documents db (snd (DELETE_project env req db))
          \<and> (fst (DELETE_project env req db) = json_response 204 NoContent
              \<or> fst (DELETE_project env req db) = internal_error)
          \<and> (healthy db \<longrightarrow> fst (DELETE_project env req db) = json_response 204 NoContent))
       \<and> (healthy db \<and> (\<exists>sd. map_of (sessions db) (route_id req) = Some sd \<and> s_ownerId sd = Some uid) \<longrightarrow>
            status (fst (DELETE_session env req db)) = 204
          \<and> status (fst (DELETE_session env req (snd (DELETE_session env req db)))) = 204)
       \<and> (healthy db \<and> (\<exists>pd. projects db (route_id req) = Some pd \<and> p_ownerId pd = Some uid) \<longrightarrow>
            status (fst (DELETE_project env req db)) = 204
          \<and> status (fst (DELETE_project env req (snd (DELETE_project env req db)))) = 204)"
proof (intro conjI impI)
  assume m: "map_of (sessions db) (route_id req) = None"
  show "same_documents db (snd (DELETE_session env req db))"
    and "fst (DELETE_session env req db) = json_response 204 NoContent
              \<or> fst (DELETE_session env req db) = internal_error"
    using auth rid m
    by (auto simp: DELETE_session_def store_ops or_500_def attempt_def fs_call_def Let_def
        same_documents_def split: list.splits)
  assume "healthy db"
  then show "fst (DELETE_session env req db) = json_response 204 NoContent"
    using auth rid m
    by (auto simp: DELETE_session_def store_ops or_500_def attempt_healthy Let_def)
next
  assume m: "projects db (route_id req) = None"
  show "same_documents db (snd (DELETE_project env req db))"
    and "fst (DELETE_project env req db) = json_response 204 NoContent
              \<or> fst (DELETE_project env req db) = internal_error"
    using auth rid m
    by (auto simp: DELETE_project_def store_ops or_500_def attempt_def fs_call_def Let_def
        same_documents_def split: list.splits)
  assume "healthy db"
  then show "fst (DELETE_project env req db) = json_response 204 NoContent"
    using auth rid m
    by (auto simp: DELETE_project_def store_ops or_500_def attempt_healthy Let_def)
next
  assume "healthy db \<and> (\<exists>sd. map_of (sessions db) (route_id req) = Some sd \<and> s_ownerId sd = Some uid)"
  then show "status (fst (DELETE_session env req db)) = 204"
    and "status (fst (DELETE_session env req (snd (DELETE_session env req db)))) = 204"
    using auth rid
    by (auto simp: DELETE_session_def store_ops or_500_def attempt_healthy responses Let_def delete_conv')
next
  assume "healthy db \<and> (\<exists>pd. projects db (route_id req) = Some pd \<and> p_ownerId pd = Some uid)"
  then show "status (fst (DELETE_project env req db)) = 204"
    and "status (fst (DELETE_project env req (snd (DELETE_project env req db)))) = 204"
    using auth rid
    by (auto simp: DELETE_project_def store_ops or_500_def attempt_healthy responses Let_def)
qed

theorem DELETE_missing_is_no_content_witness:
  "fst (DELETE_session example_env (request_of ''tok-bob'' ''s2'' None) short_store) = json_response 204 NoContent
   \<and> same_documents short_store (snd (DELETE_session example_env (request_of ''tok-bob'' ''s2'' None) short_store))
   \<and> fst (DELETE_project example_env (request_of ''tok-bob'' ''p2'' None) (project_store alice_project))
       = json_response 204 NoContent
   \<and> same_documents (project_store alice_project)
        (snd (DELETE_project example_env (request_of ''tok-bob'' ''p2'' None) (project_store alice_project)))
   \<and> status (fst (DELETE_session example_env (request_of ''tok-alice'' ''s1'' None) short_store)) = 204
   \<and> status (fst (DELETE_session example_env (request_of ''tok-alice'' ''s1'' None)
         (snd (DELETE_session example_env (request_of ''tok-alice'' ''s1'' None) short_store)))) = 204
   \<and> status (fst (DELETE_project example_env (request_of ''tok-alice'' ''p1'' None) (project_store alice_project))) = 204
   \<and> status (fst (DELETE_project example_env (request_of ''tok-alice'' ''p1'' None)
         (snd (DELETE_project example_env (request_of ''tok-alice'' ''p1'' None) (project_store alice_project))))) = 204"
proof -
  have r: "route_id (request_of ''tok-bob'' ''s2'' None) \<noteq> []"
    "route_id (request_of ''tok-bob'' ''p2'' None) \<noteq> []"
    "route_id (request_of ''tok-alice'' ''s1'' None) \<noteq> []"
    "route_id (request_of ''tok-alice'' ''p1'' None) \<noteq> []"
    by (simp_all add: request_of_def)
  have m: "map_of (sessions short_store) (route_id (request_of ''tok-bob'' ''s2'' None)) = None"
    "projects (project_store alice_project) (route_id (request_of ''tok-bob'' ''p2'' None)) = None"
    by (simp_all add: request_of_def short_store_def empty_store_def project_store_def)
  have o: "\<exists>sd. map_of (sessions short_store) (route_id (request_of ''tok-alice'' ''s1'' None)) = Some sd
              \<and> s_ownerId sd = Some ''alice''"
    "\<exists>pd. projects (project_store alice_project) (route_id (request_of ''tok-alice'' ''p1'' None)) = Some pd
              \<and> p_ownerId pd = Some ''alice''"
    by (simp_all add: request_of_def short_store_def empty_store_def project_store_def
        alice_session_def alice_project_def)
  from DELETE_missing_is_no_content[OF verify_bob r(1), of short_store] m(1) healthy_short_store
  have 1: "fst (DELETE_session example_env (request_of ''tok-bob'' ''s2'' None) short_store) = json_response 204 NoContent
   \<and> same_documents short_store (snd (DELETE_session example_env (request_of ''tok-bob'' ''s2'' None) short_store))"
    by blast
  from DELETE_missing_is_no_content[OF verify_bob r(2), of "project_store alice_project"] m(2) healthy_project_store
  have 2: "fst (DELETE_project example_env (request_of ''tok-bob'' ''p2'' None) (project_store alice_project))
       = json_response 204 NoContent
   \<and> same_documents (project_store alice_project)
        (snd (DELETE_project example_env (request_of ''tok-bob'' ''p2'' None) (project_store alice_project)))"
    by blast
  from DELETE_missing_is_no_content[OF verify_alice r(3), of short_store] o(1) healthy_short_store
  have 3: "status (fst (DELETE_session example_env (request_of ''tok-alice'' ''s1'' None) short_store)) = 204
   \<and> status (fst (DELETE_session example_env (request_of ''tok-alice'' ''s1'' None)
         (snd (DELETE_session example_env (request_of ''tok-alice'' ''s1'' None) short_store)))) = 204"
    by blast
  from DELETE_missing_is_no_content[OF verify_alice r(4), of "project_store alice_project"] o(2) healthy_project_store
  have 4: "status (fst (DELETE_project example_env (request_of ''tok-alice'' ''p1'' None) (project_store alice_project))) = 204
   \<and> status (fst (DELETE_project example_env (request_of ''tok-alice'' ''p1'' None)
         (snd (DELETE_project example_env (request_of ''tok-alice'' ''p1'' None) (project_store alice_project))))) = 204"
    by blast
  from 1 2 3 4 show ?thesis by blast
qed

section \<open>Reading a session\<close>



section \<open>Placeholders: usage limit and download link\<close>

text \<open>
  Claim C7, as the code has it. The usage check of the generation endpoint is
  the constant \<open>canGenerate = true\<close>: no request is ever answered 429, and
  the owner of the session, with a valid token and a body that parses as JSON,
  is answered 202 on a store whose calls succeed. The download endpoint answers
  the owner of a project that has a storage path with the fixed prefix
  \<open>https://storage.googleapis.com/your-bucket/\<close> followed by that path, not
  with a signed URL.
\<close>

theorem generation_and_download_placeholders:
  "status (fst (POST_generate env req db)) \<noteq> 429
   \<and> (\<forall>uid sd b. verifyAuthToken env req = Some uid \<and> route_id req \<noteq> [] \<and> body req = Some b
          \<and> healthy db \<and> map_of (sessions db) (route_id req) = Some sd \<and> s_ownerId sd = Some uid \<longrightarrow>
        fst (POST_generate env req db)
          = json_response 202 (GenerateStarted ''generating'' ''Project generation initiated.''))
   \<and> (\<forall>uid pd path. verifyAuthToken env req = Some uid \<and> route_id req \<noteq> [] \<and> healthy db
          \<and> projects db (route_id req) = Some pd \<and> p_ownerId pd = Some uid
          \<and> p_storagePath pd = Some path \<and> path \<noteq> [] \<longrightarrow>
        fst (GET_download env req db)
          = json_response 200 (DownloadLink (''https://storage.googleapis.com/your-bucket/'' @ path)
              ''Download link generated successfully.''))"
proof (intro conjI)
  show "status (fst (POST_generate env req db)) \<noteq> 429"
    by (auto simp: POST_generate_def store_ops or_500_def attempt_def Let_def responses canGenerate_def
        split: option.splits prod.splits sum.splits)
next
  show "\<forall>uid sd b. verifyAuthToken env req = Some uid \<and> route_id req \<noteq> [] \<and> body req = Some b
          \<and> healthy db \<and> map_of (sessions db) (route_id req) = Some sd \<and> s_ownerId sd = Some uid \<longrightarrow>
        fst (POST_generate env req db)
          = json_response 202 (GenerateStarted ''generating'' ''Project generation initiated.'')"
    by (auto simp: POST_generate_def store_ops or_500_def attempt_healthy Let_def canGenerate_def)
next
  show "\<forall>uid pd path. verifyAuthToken env req = Some uid \<and> route_id req \<noteq> [] \<and> healthy db
          \<and> projects db (route_id req) = Some pd \<and> p_ownerId pd = Some uid
          \<and> p_storagePath pd = Some path \<and> path \<noteq> [] \<longrightarrow>
        fst (GET_download env req db)
          = json_response 200 (DownloadLink (''https://storage.googleapis.com/your-bucket/'' @ path)
              ''Download link generated successfully.'')"
    by (auto simp: GET_download_def store_ops or_500_def attempt_healthy Let_def placeholder_bucket_def)
qed

text \<open>The claim as first stated fails: the owner's request whose body is not
  JSON is answered 500, because the body is read before the session is looked
  up.\<close>

theorem generate_without_body_counterexample:
  "verifyAuthToken example_env (request_of ''tok-alice'' ''s1'' None) = Some ''alice''
   \<and> map_of (sessions short_store) ''s1'' = Some alice_session
   \<and> s_ownerId alice_session = Some ''alice''
   \<and> healthy short_store
   \<and> fst (POST_generate example_env (request_of ''tok-alice'' ''s1'' None) short_store)
       = error_response 500 ''Internal Server Error''"
  by (simp add: verify_alice healthy_short_store POST_generate_def Let_def)
     (simp add: request_of_def short_store_def empty_store_def alice_session_def internal_error_def)

theorem generation_and_download_placeholders_witness:
  "fst (POST_generate example_env (request_of ''tok-alice'' ''s1'' (Some (JObj []))) short_store)
     = json_response 202 (GenerateStarted ''generating'' ''Project generation initiated.'')
   \<and> fst (GET_download example_env (request_of ''tok-alice'' ''p1'' None) (project_store alice_project))
     = json_response 200 (DownloadLink ''https://storage.googleapis.com/your-bucket/zips/shop.zip''
         ''Download link generated successfully.'')"
proof -
  have 1: "fst (POST_generate example_env (request_of ''tok-alice'' ''s1'' (Some (JObj []))) short_store)
     = json_response 202 (GenerateStarted ''generating'' ''Project generation initiated.'')"
    using generation_and_download_placeholders[of example_env "request_of ''tok-alice'' ''s1'' (Some (JObj []))" short_store]
    by (simp add: verify_alice healthy_short_store)
       (simp add: request_of_def short_store_def empty_store_def alice_session_def)
  have 2: "fst (GET_download example_env (request_of ''tok-alice'' ''p1'' None) (project_store alice_project))
     = json_response 200 (DownloadLink ''https://storage.googleapis.com/your-bucket/zips/shop.zip''
         ''Download link generated successfully.'')"
    using generation_and_download_placeholders[of example_env "request_of ''tok-alice'' ''p1'' None" "project_store alice_project"]
    by (simp add: verify_alice healthy_project_store)
       (simp add: request_of_def project_store_def alice_project_def)
  from 1 2 show ?thesis by simp
qed

section \<open>The identity forwarded to the agent service\<close>

lemma POST_adk_forward_identity:
  assumes "body req = Some b" "POST_adk_forward streaming env req = Inr [q1, q2]"
  shows "\<exists>sid. final_session_id env b = JStr sid
           \<and> field ''user_id'' (f_body q2) = Some (JStr (''user-'' @ take 8 sid))
           \<and> field ''session_id'' (f_body q2) = Some (JStr sid)
           \<and> f_url q1 = adkURL env @ ''/apps/ai-agent/users/user-'' @ take 8 sid @ ''/sessions/'' @ sid"
  using assms
  by (auto simp: POST_adk_forward_def Let_def adk_user_id_def run_payload_def session_request_def
      split: option.splits json.splits sum.splits if_splits)

lemma example_forward:
  "POST_adk_forward True example_adk_env (request_of tok [] (Some chat_body))
     = Inr [session_request example_adk_env ''ai-agent'' ''user-abcdefgh'' ''abcdefghijkl''
              [(''Content-Type'', ''application/json''), (''Accept'', ''text/event-stream'')],
            \<lparr>f_url = ''http://adk/run_sse'', f_method = ''POST'',
             f_headers = [(''Content-Type'', ''application/json''), (''Accept'', ''text/event-stream'')],
             f_body = JObj (run_payload ''ai-agent'' ''user-abcdefgh'' ''abcdefghijkl'' ''hi'' @ [(''streaming'', JBool True)]),
             f_timeout = None\<rparr>]"
  by (simp add: POST_adk_forward_def request_of_def chat_body_def final_session_id_def adk_user_id_def
      adk_message_def trim_def is_space_def adk_auth_headers_def example_adk_env_def bypassAuth_def
      ensureSession_def is_ok_def Let_def)

lemma other_example_forward:
  "POST_adk_forward True example_adk_env (request_of tok [] (Some other_chat_body))
     = Inr [session_request example_adk_env ''ai-agent'' ''user-abcdefgh'' ''abcdefghijkl''
              [(''Content-Type'', ''application/json''), (''Accept'', ''text/event-stream'')],
            \<lparr>f_url = ''http://adk/run_sse'', f_method = ''POST'',
             f_headers = [(''Content-Type'', ''application/json''), (''Accept'', ''text/event-stream'')],
             f_body = JObj (run_payload ''ai-agent'' ''user-abcdefgh'' ''abcdefghijkl'' ''what next?'' @ [(''streaming'', JBool True)]),
             f_timeout = None\<rparr>]"
  by (simp add: POST_adk_forward_def request_of_def other_chat_body_def final_session_id_def adk_user_id_def
      adk_message_def trim_def is_space_def adk_auth_headers_def example_adk_env_def bypassAuth_def
      ensureSession_def is_ok_def Let_def)

text \<open>
  Claim C8. What POST /api/adk sends to the agent service does not depend on
  the caller: two requests with the same body are forwarded identically,
  whatever their \<open>Authorization\<close> headers, and two forwarded requests with the
  same \<open>sessionId\<close> carry the same \<open>user_id\<close> and address the same session of
  the agent service. That \<open>user_id\<close> is \<open>user-\<close> followed by the first 8
  characters of the session id, which is the request's \<open>sessionId\<close> when it is
  a non-empty string and a fresh UUID when the request has none.
\<close>

theorem adk_user_id_ignores_caller:
  "(body req1 = body req2 \<longrightarrow>
      POST_adk_forward streaming env req1 = POST_adk_forward streaming env req2)
   \<and> (\<forall>b1 b2 p1 p2 q1 q2. body req1 = Some b1 \<and> body req2 = Some b2
          \<and> field ''sessionId'' b1 = field ''sessionId'' b2
          \<and> POST_adk_forward streaming env req1 = Inr [p1, p2]
          \<and> POST_adk_forward streaming env req2 = Inr [q1, q2] \<longrightarrow>
        field ''user_id'' (f_body p2) = field ''user_id'' (f_body q2) \<and> f_url p1 = f_url q1)
   \<and> (\<forall>b q1 q2. body req1 = Some b \<and> POST_adk_forward streaming env req1 = Inr [q1, q2] \<longrightarrow>
        (\<exists>sid. final_session_id env b = JStr sid
             \<and> field ''user_id'' (f_body q2) = Some (JStr (''user-'' @ take 8 sid))
             \<and> field ''session_id'' (f_body q2) = Some (JStr sid)
             \<and> f_url q1 = adkURL env @ ''/apps/ai-agent/users/user-'' @ take 8 sid @ ''/sessions/'' @ sid))
   \<and> (\<forall>b sid. field ''sessionId'' b = Some (JStr sid) \<and> sid \<noteq> [] \<longrightarrow> final_session_id env b = JStr sid)
   \<and> (\<forall>b. field ''sessionId'' b = None \<longrightarrow> final_session_id env b = JStr (uuid env))"
proof (intro conjI allI impI)
  assume "body req1 = body req2"
  then show "POST_adk_forward streaming env req1 = POST_adk_forward streaming env req2"
    by (simp add: POST_adk_forward_def)
next
  fix b1 b2 p1 p2 q1 q2
  assume h: "body req1 = Some b1 \<and> body req2 = Some b2
          \<and> field ''sessionId'' b1 = field ''sessionId'' b2
          \<and> POST_adk_forward streaming env req1 = Inr [p1, p2]
          \<and> POST_adk_forward streaming env req2 = Inr [q1, q2]"
  then have f: "final_session_id env b1 = final_session_id env b2"
    by (simp add: final_session_id_def)
  from h POST_adk_forward_identity[of req1 b1 streaming env p1 p2]
    POST_adk_forward_identity[of req2 b2 streaming env q1 q2] f
  show "field ''user_id'' (f_body p2) = field ''user_id'' (f_body q2)" and "f_url p1 = f_url q1"
    by auto
next
  fix b q1 q2
  assume "body req1 = Some b \<and> POST_adk_forward streaming env req1 = Inr [q1, q2]"
  then show "\<exists>sid. final_session_id env b = JStr sid
             \<and> field ''user_id'' (f_body q2) = Some (JStr (''user-'' @ take 8 sid))
             \<and> field ''session_id'' (f_body q2) = Some (JStr sid)
             \<and> f_url q1 = adkURL env @ ''/apps/ai-agent/users/user-'' @ take 8 sid @ ''/sessions/'' @ sid"
    using POST_adk_forward_identity by blast
next
  fix b sid
  assume "field ''sessionId'' b = Some (JStr sid) \<and> sid \<noteq> []"
  then show "final_session_id env b = JStr sid" by (simp add: final_session_id_def)
next
  fix b :: json
  assume "field ''sessionId'' b = None"
  then show "final_session_id env b = JStr (uuid env)" by (simp add: final_session_id_def)
qed

theorem adk_user_id_ignores_caller_witness:
  "POST_adk_forward True example_adk_env (request_of ''tok-alice'' [] (Some chat_body))
     = POST_adk_forward True example_adk_env (request_of ''tok-bob'' [] (Some chat_body))
   \<and> map (\<lambda>q. field ''user_id'' (f_body q))
        (projr (POST_adk_forward True example_adk_env (request_of ''tok-alice'' [] (Some chat_body))))
     = map (\<lambda>q. field ''user_id'' (f_body q))
        (projr (POST_adk_forward True example_adk_env (request_of ''tok-bob'' [] (Some other_chat_body))))
   \<and> map (\<lambda>q. field ''user_id'' (f_body q))
        (projr (POST_adk_forward True example_adk_env (request_of ''tok-bob'' [] (Some other_chat_body))))
     = [None, Some (JStr ''user-abcdefgh'')]
   \<and> map f_url (projr (POST_adk_forward True example_adk_env (request_of ''tok-bob'' [] (Some other_chat_body))))
     = [''http://adk/apps/ai-agent/users/user-abcdefgh/sessions/abcdefghijkl'', ''http://adk/run_sse'']"
proof -
  let ?alice = "request_of ''tok-alice'' [] (Some chat_body)"
  let ?bob = "request_of ''tok-bob'' [] (Some chat_body)"
  let ?bob' = "request_of ''tok-bob'' [] (Some other_chat_body)"
  let ?s = "session_request example_adk_env ''ai-agent'' ''user-abcdefgh'' ''abcdefghijkl''
              [(''Content-Type'', ''application/json''), (''Accept'', ''text/event-stream'')]"
  let ?r = "\<lambda>m. \<lparr>f_url = ''http://adk/run_sse'', f_method = ''POST'',
             f_headers = [(''Content-Type'', ''application/json''), (''Accept'', ''text/event-stream'')],
             f_body = JObj (run_payload ''ai-agent'' ''user-abcdefgh'' ''abcdefghijkl'' m @ [(''streaming'', JBool True)]),
             f_timeout = None\<rparr>"
  have 1: "POST_adk_forward True example_adk_env ?alice = POST_adk_forward True example_adk_env ?bob"
    by (rule adk_user_id_ignores_caller[of ?alice ?bob True example_adk_env, THEN conjunct1, rule_format])
       (simp add: request_of_def)
  have 2: "field ''user_id'' (f_body (?r ''hi'')) = field ''user_id'' (f_body (?r ''what next?''))
           \<and> f_url ?s = f_url ?s"
    by (rule adk_user_id_ignores_caller[of ?alice ?bob' True example_adk_env, THEN conjunct2, THEN conjunct1,
          rule_format, of chat_body other_chat_body ?s "?r ''hi''" ?s "?r ''what next?''"])
       (simp add: example_forward other_example_forward,
        simp add: request_of_def chat_body_def other_chat_body_def)
  have 3: "field ''user_id'' (f_body (?r ''what next?'')) = Some (JStr ''user-abcdefgh'')"
    by (simp add: run_payload_def)
  from 1 2 3 show ?thesis
    by (simp add: example_forward other_example_forward)
       (simp add: session_request_def example_adk_env_def)
qed


section \<open>Posting a message: the call to the agent proxy\<close>



lemma agent_reply_failed:
  "agent_call_failed (network env sent (proxy_request env sid tok msg)) \<Longrightarrow>
   fst (agent_reply env sid tok msg sent) = (JStr unavailable_text, None)"
  by (auto simp: agent_reply_def fetch_def agent_call_failed_def handleAgentUnavailable_def Let_def
      split: fetch_outcome.splits)

lemma agent_reply_answered:
  "network env sent (proxy_request env sid tok msg) = Responded st (Some r) \<Longrightarrow> is_ok st \<Longrightarrow>
   extractResponseText (JSON_parse env) (JSON_stringify env) r = Inr x \<Longrightarrow>
   fst (agent_reply env sid tok msg sent) = x"
  by (simp add: agent_reply_def fetch_def Let_def)

lemma exchange_healthy:
  assumes "healthy db" "sid \<noteq> []"
  shows "\<exists>db'. exchange env sid uid tok msg db =
           (json_response 200 (AssistantMessage
              \<lparr>a_messageId = fst (last (messages db' sid)),
               a_text = fst (fst (agent_reply env sid tok msg [])),
               a_next_actions = snd (fst (agent_reply env sid tok msg []))\<rparr>),
            db', snd (agent_reply env sid tok msg []))
         \<and> map message_gist (messages db' sid)
             = map message_gist (messages db sid) @
               [(User, JStr msg, None),
                (Assistant, fst (fst (agent_reply env sid tok msg [])),
                 (case snd (fst (agent_reply env sid tok msg [])) of
                    None \<Rightarrow> None | Some xs \<Rightarrow> if xs \<noteq> [] then Some xs else None))]"
  using assms
  by (cases "map_of (sessions db) sid"; cases "agent_reply env sid tok msg []")
     (auto simp: exchange_def ensureSessionExists_def addMessageToSession_def store_ops
        attempt_healthy Let_def update_conv' message_gist_def)

lemma POST_message_exchange:
  assumes "route_id req \<noteq> []" "authorization req = Some a" "prefix ''Bearer '' a"
    "verifyIdToken env (bearer_token a) = Some uid"
    "body req = Some b" "field ''message'' b = Some (JStr msg)" "msg \<noteq> []"
  shows "POST_message env req db = exchange env (route_id req) uid (bearer_token a) msg db"
  using assms by (cases b) (auto simp: POST_message_def Let_def)




lemma hello_request_facts:
  "route_id hello_request = ''s1''"
  "authorization hello_request = Some ''Bearer tok-alice''"
  "prefix ''Bearer '' ''Bearer tok-alice''"
  "bearer_token ''Bearer tok-alice'' = ''tok-alice''"
  "body hello_request = Some (JObj [(''message'', JStr ''hello'')])"
  "field ''message'' (JObj [(''message'', JStr ''hello'')]) = Some (JStr ''hello'')"
  by (simp_all add: hello_request_def request_of_def bearer_token_def)

lemma example_env_facts:
  "verifyIdToken (example_route_env f) ''tok-alice'' = Some ''alice''"
  "verifyIdToken (example_route_env f) ''tok-bob'' = Some ''bob''"
  "network (example_route_env f) = f"
  "PROXY_URL (example_route_env f) = ''http://localhost:3000''"
  by (simp_all add: example_route_env_def)

lemma exchange_stored:
  assumes "healthy db" "sid \<noteq> []" "map_of (sessions db) sid = Some sd"
  shows "messages (fst (snd (exchange env sid uid tok msg db))) sid
     = messages db sid @
       [(auto_id (next_id db),
         \<lparr>m_sender = User, m_text = JStr msg, m_createdAt = clock db, m_role = None,
          m_metadata = None, m_next_actions = None\<rparr>),
        (auto_id (Suc (next_id db)),
         \<lparr>m_sender = Assistant, m_text = fst (fst (agent_reply env sid tok msg [])),
          m_createdAt = Suc (Suc (clock db)), m_role = None, m_metadata = None,
          m_next_actions = (case snd (fst (agent_reply env sid tok msg [])) of
                              None \<Rightarrow> None | Some xs \<Rightarrow> if xs \<noteq> [] then Some xs else None)\<rparr>)]"
  using assms
  by (cases "agent_reply env sid tok msg []")
     (auto simp: exchange_def ensureSessionExists_def addMessageToSession_def store_ops
        attempt_healthy Let_def update_conv')

lemma short_store_facts:
  "map_of (sessions short_store) ''s1'' = Some alice_session"
  "messages short_store ''s1'' = [(''m1'', user_message 7), (''m2'', user_message 3)]"
  "next_id short_store = 0" "clock short_store = 0"
  by (simp_all add: short_store_def empty_store_def)


lemma ensure_messages:
  "messages (snd (ensureSessionExists sid uid db)) = messages db"
  by (auto simp: ensureSessionExists_def session_get_def session_set_def attempt_def fs_call_def
      split: list.splits option.splits)

lemma addMessage_outcome:
  assumes "addMessageToSession sid sndr t na md db = (r, db')"
  shows "(\<exists>mid. r = Inr mid \<and> mid = fst (last (messages db' sid))
            \<and> map message_gist (messages db' sid)
                = map message_gist (messages db sid) @
                  [(sndr, t, case na of None \<Rightarrow> None | Some xs \<Rightarrow> if xs \<noteq> [] then Some xs else None)])
       \<or> (\<exists>e. r = Inl e \<and> set (map message_gist (messages db sid)) \<subseteq> set (map message_gist (messages db' sid)))"
  using assms
  by (auto simp: addMessageToSession_def message_add_def session_touch_def attempt_def fs_call_def
      message_gist_def split: list.splits option.splits if_splits)

lemma exchange_outcome:
  assumes sid: "sid \<noteq> []"
    and fail: "agent_call_failed (network env [] (proxy_request env sid tok msg))"
  shows "(status (fst (exchange env sid uid tok msg db)) = 200
          \<or> status (fst (exchange env sid uid tok msg db)) = 500)
       \<and> (status (fst (exchange env sid uid tok msg db)) = 200 \<longrightarrow>
            fst (exchange env sid uid tok msg db)
              = json_response 200 (AssistantMessage
                  \<lparr>a_messageId = fst (last (messages (fst (snd (exchange env sid uid tok msg db))) sid)),
                   a_text = JStr unavailable_text, a_next_actions = None\<rparr>)
          \<and> map message_gist (messages (fst (snd (exchange env sid uid tok msg db))) sid)
              = map message_gist (messages db sid) @
                [(User, JStr msg, None), (Assistant, JStr unavailable_text, None)])
       \<and> (snd (snd (exchange env sid uid tok msg db)) \<noteq> [] \<longrightarrow>
            (User, JStr msg, None)
              \<in> set (map message_gist (messages (fst (snd (exchange env sid uid tok msg db))) sid)))"
proof -
  obtain r0 db0 where 0: "ensureSessionExists sid uid db = (r0, db0)"
    by (cases "ensureSessionExists sid uid db") auto
  have m0: "messages db0 = messages db" using ensure_messages[of sid uid db] 0 by simp
  show ?thesis
  proof (cases r0)
    case (Inl e)
    then show ?thesis using 0 by (simp add: exchange_def responses)
  next
    case (Inr u)
    obtain r1 db1 where 1: "addMessageToSession sid User (JStr msg) None None db0 = (r1, db1)"
      by (cases "addMessageToSession sid User (JStr msg) None None db0") auto
    show ?thesis
    proof (cases r1)
      case (Inl e)
      then show ?thesis using 0 Inr 1 by (simp add: exchange_def responses)
    next
      case (Inr mid)
      from addMessage_outcome[OF 1] Inr have g1:
        "map message_gist (messages db1 sid) = map message_gist (messages db sid) @ [(User, JStr msg, None)]"
        by (simp add: m0)
      obtain sent where rep: "agent_reply env sid tok msg [] = ((JStr unavailable_text, None), sent)"
        using agent_reply_failed[OF fail] by (cases "agent_reply env sid tok msg []") auto
      obtain r2 db2 where 2: "addMessageToSession sid Assistant (JStr unavailable_text) None None db1 = (r2, db2)"
        by (cases "addMessageToSession sid Assistant (JStr unavailable_text) None None db1") auto
      from addMessage_outcome[OF 2] show ?thesis
      proof
        assume "\<exists>mid. r2 = Inr mid \<and> mid = fst (last (messages db2 sid))
            \<and> map message_gist (messages db2 sid)
                = map message_gist (messages db1 sid) @
                  [(Assistant, JStr unavailable_text, case None of None \<Rightarrow> None | Some xs \<Rightarrow> if xs \<noteq> [] then Some xs else None)]"
        then show ?thesis using 0 \<open>r0 = Inr u\<close> 1 Inr 2 rep g1
          by (auto simp: exchange_def Let_def responses)
      next
        assume "\<exists>e. r2 = Inl e \<and> set (map message_gist (messages db1 sid)) \<subseteq> set (map message_gist (messages db2 sid))"
        then show ?thesis using 0 \<open>r0 = Inr u\<close> 1 Inr 2 rep g1
          by (auto simp: exchange_def Let_def responses)
      qed
    qed
  qed
qed

text \<open>
  Claim C2. POST /api/sessions/[sessionId]/messages with a valid token and a
  non-empty string message, when the call to the ADK proxy fails (a network
  error, an abort by the timeout, or a response that is not 2xx). The answer is
  200, or 500 in case a Firestore call throws; it is 200 on a store whose calls
  succeed. Whenever it is 200 it carries the static fallback text, written out
  below, and no next actions, and the messages of the session are the earlier
  ones followed by the user's message and by an assistant message with that
  text. Once the proxy has been called the user's message is stored, whatever
  happens next.
\<close>

theorem agent_failure_gives_fallback:
  assumes rid: "route_id req \<noteq> []"
    and hdr: "authorization req = Some a" "prefix ''Bearer '' a"
    and tok: "verifyIdToken env (bearer_token a) = Some uid"
    and bdy: "body req = Some b" "field ''message'' b = Some (JStr msg)" "msg \<noteq> []"
    and fail: "agent_call_failed (network env [] (proxy_request env (route_id req) (bearer_token a) msg))"
  shows "(healthy db \<longrightarrow> status (fst (POST_message env req db)) = 200)
       \<and> (status (fst (POST_message env req db)) = 200 \<or> status (fst (POST_message env req db)) = 500)
       \<and> (status (fst (POST_message env req db)) = 200 \<longrightarrow>
            fst (POST_message env req db)
              = json_response 200 (AssistantMessage
                  \<lparr>a_messageId = fst (last (messages (fst (snd (POST_message env req db))) (route_id req))),
                   a_text = JStr ''I'm sorry, but I'm temporarily unable to process your request. The AI agent service is currently unavailable. Please try again later.'',
                   a_next_actions = None\<rparr>)
          \<and> map message_gist (messages (fst (snd (POST_message env req db))) (route_id req))
              = map message_gist (messages db (route_id req)) @
                [(User, JStr msg, None),
                 (Assistant, JStr ''I'm sorry, but I'm temporarily unable to process your request. The AI agent service is currently unavailable. Please try again later.'', None)])
       \<and> (snd (snd (POST_message env req db)) \<noteq> [] \<longrightarrow>
            (User, JStr msg, None)
              \<in> set (map message_gist (messages (fst (snd (POST_message env req db))) (route_id req))))"
proof -
  have e: "POST_message env req db = exchange env (route_id req) uid (bearer_token a) msg db"
    using rid hdr tok bdy by (rule POST_message_exchange)
  have h: "healthy db \<longrightarrow> status (fst (POST_message env req db)) = 200"
    using exchange_healthy[OF _ rid, of db env uid "bearer_token a" msg]
    unfolding e by (auto simp: responses)
  have t: "JStr ''I'm sorry, but I'm temporarily unable to process your request. The AI agent service is currently unavailable. Please try again later.'' = JStr unavailable_text"
    by (simp add: unavailable_text_def)
  from h exchange_outcome[OF rid fail, of uid db] show ?thesis
    unfolding e t by blast
qed

theorem agent_failure_gives_fallback_witness:
  "fst (POST_message failing_agent_env hello_request short_store)
     = json_response 200 (AssistantMessage
         \<lparr>a_messageId = ''auto-i'',
          a_text = JStr ''I'm sorry, but I'm temporarily unable to process your request. The AI agent service is currently unavailable. Please try again later.'',
          a_next_actions = None\<rparr>)
   \<and> messages (fst (snd (POST_message failing_agent_env hello_request short_store))) ''s1''
     = [(''m1'', user_message 7), (''m2'', user_message 3),
        (''auto-'', \<lparr>m_sender = User, m_text = JStr ''hello'', m_createdAt = 0, m_role = None,
                     m_metadata = None, m_next_actions = None\<rparr>),
        (''auto-i'', \<lparr>m_sender = Assistant,
                      m_text = JStr ''I'm sorry, but I'm temporarily unable to process your request. The AI agent service is currently unavailable. Please try again later.'',
                      m_createdAt = 2, m_role = None, m_metadata = None, m_next_actions = None\<rparr>)]"
proof -
  have f: "agent_call_failed (network failing_agent_env []
             (proxy_request failing_agent_env (route_id hello_request) (bearer_token ''Bearer tok-alice'') ''hello''))"
    by (simp add: failing_agent_env_def example_env_facts agent_call_failed_def is_ok_def)
  have v: "verifyIdToken failing_agent_env (bearer_token ''Bearer tok-alice'') = Some ''alice''"
    by (simp add: failing_agent_env_def example_env_facts hello_request_facts)
  have n: "route_id hello_request \<noteq> []" "''hello'' \<noteq> []"
    by (simp_all add: hello_request_facts)
  have e: "POST_message failing_agent_env hello_request short_store
             = exchange failing_agent_env ''s1'' ''alice'' ''tok-alice'' ''hello'' short_store"
    using POST_message_exchange[OF n(1) hello_request_facts(2,3) v hello_request_facts(5,6) n(2), of short_store]
    by (simp add: hello_request_facts)
  have r: "fst (agent_reply failing_agent_env ''s1'' ''tok-alice'' ''hello'' []) = (JStr unavailable_text, None)"
    using agent_reply_failed[of failing_agent_env "[]" "''s1''" "''tok-alice''" "''hello''"] f
    by (simp add: hello_request_facts)
  have m: "messages (fst (snd (POST_message failing_agent_env hello_request short_store))) ''s1''
     = [(''m1'', user_message 7), (''m2'', user_message 3),
        (''auto-'', \<lparr>m_sender = User, m_text = JStr ''hello'', m_createdAt = 0, m_role = None,
                     m_metadata = None, m_next_actions = None\<rparr>),
        (''auto-i'', \<lparr>m_sender = Assistant,
                      m_text = JStr ''I'm sorry, but I'm temporarily unable to process your request. The AI agent service is currently unavailable. Please try again later.'',
                      m_createdAt = 2, m_role = None, m_metadata = None, m_next_actions = None\<rparr>)]"
    unfolding e
    using exchange_stored[OF healthy_short_store _ short_store_facts(1), of failing_agent_env "''alice''" "''tok-alice''" "''hello''"]
    by (simp add: r short_store_facts auto_id_def unavailable_text_def)
  from agent_failure_gives_fallback[OF n(1) hello_request_facts(2,3) v hello_request_facts(5,6) n(2) f, of short_store]
  show ?thesis
    using m by (simp add: healthy_short_store hello_request_facts)
qed







lemma extract_hi_there:
  "extractResponseText example_parse example_stringify (JObj [(''text'', JStr ''hi there'')])
     = Inr (JStr ''hi there'', None)"
  by (simp add: extractResponseText_def probe_text_def message_parts_text_def message_content_def
      array_field_def apply_fence_def json_fence_def initial_next_actions_def)


section \<open>Ownership checks on sessions and projects addressed by id\<close>


lemma fs_call_documents:
  "fs_call db = (f, db') \<Longrightarrow> sessions db' = sessions db \<and> messages db' = messages db \<and> projects db' = projects db"
  by (auto simp: fs_call_def split: list.splits)

lemma session_non_owner:
  assumes auth: "verifyAuthToken env req = Some uid"
    and rid: "route_id req \<noteq> []"
    and a: "map_of (sessions db) (route_id req) = Some sd" "s_ownerId sd \<noteq> Some uid"
  shows "same_documents db (snd (GET_session env req db))"
    "same_documents db (snd (DELETE_session env req db))"
    "same_documents db (snd (POST_generate env req db))"
    "status (fst (GET_session env req db)) \<in> {403, 500}"
    "status (fst (DELETE_session env req db)) \<in> {403, 500}"
    "status (fst (POST_generate env req db)) \<in> {403, 500}"
  using auth rid a
  by (auto simp: GET_session_def DELETE_session_def POST_generate_def store_ops or_500_def
      attempt_def Let_def same_documents_def responses
      dest: fs_call_documents split: prod.splits option.splits)

lemma project_non_owner:
  assumes auth: "verifyAuthToken env req = Some uid"
    and rid: "route_id req \<noteq> []"
    and a: "projects db (route_id req) = Some pd" "p_ownerId pd \<noteq> Some uid"
  shows "same_documents db (snd (GET_project env req db))"
    "same_documents db (snd (PATCH_project env req db))"
    "same_documents db (snd (DELETE_project env req db))"
    "same_documents db (snd (GET_download env req db))"
    "status (fst (PATCH_project env req db)) \<in> {403, 500}"
    "status (fst (DELETE_project env req db)) \<in> {403, 500}"
    "status (fst (GET_download env req db)) \<in> {403, 500}"
    "p_isPublic pd \<noteq> Some True \<Longrightarrow> status (fst (GET_project env req db)) \<in> {403, 500}"
  using auth rid a
  by (auto simp: GET_project_def PATCH_project_def DELETE_project_def GET_download_def store_ops or_500_def
      attempt_def Let_def same_documents_def responses
      dest: fs_call_documents split: prod.splits option.splits json.splits sum.splits)


lemma session_non_owner_healthy:
  assumes auth: "verifyAuthToken env req = Some uid"
    and rid: "route_id req \<noteq> []"
    and a: "map_of (sessions db) (route_id req) = Some sd" "s_ownerId sd \<noteq> Some uid"
    and h: "healthy db"
  shows "fst (GET_session env req db) = error_response 403 ''Forbidden''"
    "fst (DELETE_session env req db) = error_response 403 ''Forbidden''"
    "body req \<noteq> None \<Longrightarrow> fst (POST_generate env req db) = error_response 403 ''Forbidden or Session not found''"
  using auth rid a h
  by (auto simp: GET_session_def DELETE_session_def POST_generate_def store_ops or_500_def
      attempt_healthy Let_def)

lemma project_non_owner_healthy:
  assumes auth: "verifyAuthToken env req = Some uid"
    and rid: "route_id req \<noteq> []"
    and a: "projects db (route_id req) = Some pd" "p_ownerId pd \<noteq> Some uid"
    and h: "healthy db"
  shows "p_isPublic pd \<noteq> Some True \<Longrightarrow> fst (GET_project env req db) = error_response 403 ''Forbidden''"
    "p_isPublic pd = Some True \<and> p_createdAt pd = Some c \<and> p_updatedAt pd = Some u \<Longrightarrow>
       fst (GET_project env req db) = json_response 200 (ProjectDetail
           \<lparr>pd_projectId = route_id req, pd_ownerId = p_ownerId pd, pd_name = p_name pd,
            pd_description = p_description pd, pd_createdAt = c, pd_updatedAt = u,
            pd_sessionId = p_sessionId pd, pd_storagePath = p_storagePath pd,
            pd_previewURL = p_previewURL pd, pd_isPublic = Some True\<rparr>)"
    "body req \<noteq> None \<and> body req \<noteq> Some JNull \<Longrightarrow>
       fst (PATCH_project env req db) = error_response 403 ''Forbidden''"
    "fst (DELETE_project env req db) = error_response 403 ''Forbidden''"
    "fst (GET_download env req db) = error_response 403 ''Forbidden''"
  using auth rid a h
  by (auto simp: GET_project_def PATCH_project_def DELETE_project_def GET_download_def store_ops
      or_500_def attempt_healthy Let_def serializeTimestamp_def
      split: option.splits json.splits)

lemma unreadable_body:
  assumes auth: "verifyAuthToken env req = Some uid"
    and rid: "route_id req \<noteq> []"
  shows "body req = None \<Longrightarrow> fst (POST_generate env req db) = internal_error"
    "body req = None \<or> body req = Some JNull \<Longrightarrow> fst (PATCH_project env req db) = internal_error"
  using auth rid
  by (auto simp: POST_generate_def PATCH_project_def Let_def)

text \<open>
  Claim C3, as the code has it. An authenticated request addresses an existing
  session or project by id, its caller is not the document's \<open>ownerId\<close>, and
  the handler is any of those that address a session or project by id other
  than POST /api/sessions/[sessionId]/messages, which is left out here: GET and
  DELETE of the session, POST generate, GET, PATCH and DELETE of the project,
  and the download link. Every one of them leaves all documents unchanged,
  whatever the store does. Apart from GET of a public project, the answer is
  403 or 500 and never a success; on a store whose calls succeed it is 403,
  provided the body can be read where the handler reads one before the check
  (any JSON body for generate, a JSON body other than \<open>null\<close> for PATCH); a
  body that cannot be read is answered 500. GET of a project is the exception
  the handler makes on purpose: it refuses the non-owner only when the project
  is not marked \<open>isPublic\<close>, and returns a public project (one that has its
  two timestamps, as for its owner) with status 200.
\<close>

theorem non_owner_is_refused:
  assumes auth: "verifyAuthToken env req = Some uid"
    and rid: "route_id req \<noteq> []"
  shows "(\<forall>sd. map_of (sessions db) (route_id req) = Some sd \<and> s_ownerId sd \<noteq> Some uid \<longrightarrow>
            same_documents db (snd (GET_session env req db))
          \<and> same_documents db (snd (DELETE_session env req db))
          \<and> same_documents db (snd (POST_generate env req db))
          \<and> status (fst (GET_session env req db)) \<in> {403, 500}
          \<and> status (fst (DELETE_session env req db)) \<in> {403, 500}
          \<and> status (fst (POST_generate env req db)) \<in> {403, 500}
          \<and> (healthy db \<longrightarrow>
                fst (GET_session env req db) = error_response 403 ''Forbidden''
              \<and> fst (DELETE_session env req db) = error_response 403 ''Forbidden''
              \<and> (body req \<noteq> None \<longrightarrow>
                   fst (POST_generate env req db) = error_response 403 ''Forbidden or Session not found'')))
       \<and> (\<forall>pd. projects db (route_id req) = Some pd \<and> p_ownerId pd \<noteq> Some uid \<longrightarrow>
            same_documents db (snd (GET_project env req db))
          \<and> same_documents db (snd (PATCH_project env req db))
          \<and> same_documents db (snd (DELETE_project env req db))
          \<and> same_documents db (snd (GET_download env req db))
          \<and> status (fst (PATCH_project env req db)) \<in> {403, 500}
          \<and> status (fst (DELETE_project env req db)) \<in> {403, 500}
          \<and> status (fst (GET_download env req db)) \<in> {403, 500}
          \<and> (p_isPublic pd \<noteq> Some True \<longrightarrow> status (fst (GET_project env req db)) \<in> {403, 500})
          \<and> (healthy db \<longrightarrow>
                (p_isPublic pd \<noteq> Some True \<longrightarrow>
                   fst (GET_project env req db) = error_response 403 ''Forbidden'')
              \<and> (\<forall>c u. p_isPublic pd = Some True \<and> p_createdAt pd = Some c \<and> p_updatedAt pd = Some u \<longrightarrow>
                   fst (GET_project env req db) = json_response 200 (ProjectDetail
                     \<lparr>pd_projectId = route_id req, pd_ownerId = p_ownerId pd, pd_name = p_name pd,
                      pd_description = p_description pd, pd_createdAt = c, pd_updatedAt = u,
                      pd_sessionId = p_sessionId pd, pd_storagePath = p_storagePath pd,
                      pd_previewURL = p_previewURL pd, pd_isPublic = Some True\<rparr>))
              \<and> (body req \<noteq> None \<and> body req \<noteq> Some JNull \<longrightarrow>
                   fst (PATCH_project env req db) = error_response 403 ''Forbidden'')
              \<and> fst (DELETE_project env req db) = error_response 403 ''Forbidden''
              \<and> fst (GET_download env req db) = error_response 403 ''Forbidden''))
       \<and> (body req = None \<longrightarrow> fst (POST_generate env req db) = internal_error)
       \<and> (body req = None \<or> body req = Some JNull \<longrightarrow> fst (PATCH_project env req db) = internal_error)"
proof (intro conjI allI impI)
  fix sd assume a: "map_of (sessions db) (route_id req) = Some sd \<and> s_ownerId sd \<noteq> Some uid"
  then have a': "map_of (sessions db) (route_id req) = Some sd" "s_ownerId sd \<noteq> Some uid" by auto
  note s = session_non_owner[OF auth rid a']
  show "same_documents db (snd (GET_session env req db))" by (rule s(1))
  show "same_documents db (snd (DELETE_session env req db))" by (rule s(2))
  show "same_documents db (snd (POST_generate env req db))" by (rule s(3))
  show "status (fst (GET_session env req db)) \<in> {403, 500}" by (rule s(4))
  show "status (fst (DELETE_session env req db)) \<in> {403, 500}" by (rule s(5))
  show "status (fst (POST_generate env req db)) \<in> {403, 500}" by (rule s(6))
  assume h: "healthy db"
  note t = session_non_owner_healthy[OF auth rid a' h]
  show "fst (GET_session env req db) = error_response 403 ''Forbidden''" by (rule t(1))
  show "fst (DELETE_session env req db) = error_response 403 ''Forbidden''" by (rule t(2))
  assume "body req \<noteq> None"
  then show "fst (POST_generate env req db) = error_response 403 ''Forbidden or Session not found''"
    by (rule t(3))
next
  fix pd assume a: "projects db (route_id req) = Some pd \<and> p_ownerId pd \<noteq> Some uid"
  then have a': "projects db (route_id req) = Some pd" "p_ownerId pd \<noteq> Some uid" by auto
  note s = project_non_owner[OF auth rid a']
  show "same_documents db (snd (GET_project env req db))" by (rule s(1))
  show "same_documents db (snd (PATCH_project env req db))" by (rule s(2))
  show "same_documents db (snd (DELETE_project env req db))" by (rule s(3))
  show "same_documents db (snd (GET_download env req db))" by (rule s(4))
  show "status (fst (PATCH_project env req db)) \<in> {403, 500}" by (rule s(5))
  show "status (fst (DELETE_project env req db)) \<in> {403, 500}" by (rule s(6))
  show "status (fst (GET_download env req db)) \<in> {403, 500}" by (rule s(7))
  { assume "p_isPublic pd \<noteq> Some True"
    then show "status (fst (GET_project env req db)) \<in> {403, 500}" by (rule s(8)) }
  assume h: "healthy db"
  note t = project_non_owner_healthy[OF auth rid a' h]
  { assume "p_isPublic pd \<noteq> Some True"
    then show "fst (GET_project env req db) = error_response 403 ''Forbidden''" by (rule t(1)) }
  { fix c u assume "p_isPublic pd = Some True \<and> p_createdAt pd = Some c \<and> p_updatedAt pd = Some u"
    then show "fst (GET_project env req db) = json_response 200 (ProjectDetail
                     \<lparr>pd_projectId = route_id req, pd_ownerId = p_ownerId pd, pd_name = p_name pd,
                      pd_description = p_description pd, pd_createdAt = c, pd_updatedAt = u,
                      pd_sessionId = p_sessionId pd, pd_storagePath = p_storagePath pd,
                      pd_previewURL = p_previewURL pd, pd_isPublic = Some True\<rparr>)"
      by (rule t(2)) }
  { assume "body req \<noteq> None \<and> body req \<noteq> Some JNull"
    then show "fst (PATCH_project env req db) = error_response 403 ''Forbidden''" by (rule t(3)) }
  show "fst (DELETE_project env req db) = error_response 403 ''Forbidden''" by (rule t(4))
  show "fst (GET_download env req db) = error_response 403 ''Forbidden''" by (rule t(5))
next
  assume "body req = None"
  then show "fst (POST_generate env req db) = internal_error"
    by (rule unreadable_body(1)[OF auth rid])
next
  assume "body req = None \<or> body req = Some JNull"
  then show "fst (PATCH_project env req db) = internal_error"
    by (rule unreadable_body(2)[OF auth rid])
qed


lemma exchange_touched:
  assumes "healthy db" "sid \<noteq> []" "map_of (sessions db) sid = Some sd"
  shows "sessions (fst (snd (exchange env sid uid tok msg db)))
     = AList.update sid (sd\<lparr>s_updatedAt := Some (Suc (Suc (Suc (clock db))))\<rparr>) (sessions db)"
  using assms
  by (cases "agent_reply env sid tok msg []")
     (auto simp: exchange_def ensureSessionExists_def addMessageToSession_def store_ops
        attempt_healthy Let_def update_conv')

lemma bob_hello:
  "POST_message answering_agent_env (request_of ''tok-bob'' ''s1'' (Some (JObj [(''message'', JStr ''hello'')]))) short_store
     = exchange answering_agent_env ''s1'' ''bob'' ''tok-bob'' ''hello'' short_store"
  using POST_message_exchange[of "request_of ''tok-bob'' ''s1'' (Some (JObj [(''message'', JStr ''hello'')]))"
      "''Bearer tok-bob''" answering_agent_env "''bob''" "JObj [(''message'', JStr ''hello'')]" "''hello''" short_store]
  by (simp add: request_of_def bearer_token_def answering_agent_env_def example_env_facts)

lemma bob_reply:
  "fst (agent_reply answering_agent_env ''s1'' ''tok-bob'' ''hello'' []) = (JStr ''hi there'', None)"
  by (rule agent_reply_answered[where st = 200 and r = "JObj [(''text'', JStr ''hi there'')]"])
     (simp_all add: answering_agent_env_def example_route_env_def is_ok_def extract_hi_there)

text \<open>The claim as first stated fails three times. Bob reads Alice's public
  project. Bob's PATCH of Alice's project without a JSON body is answered 500,
  not 403. And Bob posts a message to Alice's session: the messages route makes
  no ownership check, stores his message and the reply, touches the session and
  answers 200, although \<open>openapi.yaml\<close> lists a 403 for this route and the
  other session handlers compare \<open>ownerId\<close>.\<close>

theorem non_owner_counterexample:
  "verifyAuthToken example_env (request_of ''tok-bob'' ''p1'' None) = Some ''bob''
   \<and> projects (project_store (alice_project\<lparr>p_isPublic := Some True\<rparr>)) ''p1''
       = Some (alice_project\<lparr>p_isPublic := Some True\<rparr>)
   \<and> p_ownerId (alice_project\<lparr>p_isPublic := Some True\<rparr>) = Some ''alice''
   \<and> fst (GET_project example_env (request_of ''tok-bob'' ''p1'' None)
             (project_store (alice_project\<lparr>p_isPublic := Some True\<rparr>)))
       = json_response 200 (ProjectDetail
           \<lparr>pd_projectId = ''p1'', pd_ownerId = Some ''alice'', pd_name = Some (JStr ''Shop''),
            pd_description = None, pd_createdAt = 4, pd_updatedAt = 5, pd_sessionId = Some ''s1'',
            pd_storagePath = Some ''zips/shop.zip'', pd_previewURL = None, pd_isPublic = Some True\<rparr>)
   \<and> projects (project_store alice_project) ''p1'' = Some alice_project
   \<and> p_ownerId alice_project = Some ''alice''
   \<and> fst (PATCH_project example_env (request_of ''tok-bob'' ''p1'' None) (project_store alice_project))
       = error_response 500 ''Internal Server Error''
   \<and> verifyIdToken answering_agent_env ''tok-bob'' = Some ''bob''
   \<and> sessions short_store = [(''s1'', alice_session)]
   \<and> s_ownerId alice_session = Some ''alice''
   \<and> fst (POST_message answering_agent_env
             (request_of ''tok-bob'' ''s1'' (Some (JObj [(''message'', JStr ''hello'')]))) short_store)
       = json_response 200 (AssistantMessage
           \<lparr>a_messageId = ''auto-i'', a_text = JStr ''hi there'', a_next_actions = None\<rparr>)
   \<and> sessions (fst (snd (POST_message answering_agent_env
             (request_of ''tok-bob'' ''s1'' (Some (JObj [(''message'', JStr ''hello'')]))) short_store)))
       = [(''s1'', alice_session\<lparr>s_updatedAt := Some 3\<rparr>)]
   \<and> messages (fst (snd (POST_message answering_agent_env
             (request_of ''tok-bob'' ''s1'' (Some (JObj [(''message'', JStr ''hello'')]))) short_store))) ''s1''
       = [(''m1'', user_message 7), (''m2'', user_message 3),
          (''auto-'', \<lparr>m_sender = User, m_text = JStr ''hello'', m_createdAt = 0, m_role = None,
                       m_metadata = None, m_next_actions = None\<rparr>),
          (''auto-i'', \<lparr>m_sender = Assistant, m_text = JStr ''hi there'', m_createdAt = 2,
                        m_role = None, m_metadata = None, m_next_actions = None\<rparr>)]"
proof (intro conjI)
  show "verifyAuthToken example_env (request_of ''tok-bob'' ''p1'' None) = Some ''bob''"
    by (rule verify_bob)
  show "projects (project_store (alice_project\<lparr>p_isPublic := Some True\<rparr>)) ''p1''
       = Some (alice_project\<lparr>p_isPublic := Some True\<rparr>)"
    "projects (project_store alice_project) ''p1'' = Some alice_project"
    by (simp_all add: project_store_def)
  show "p_ownerId (alice_project\<lparr>p_isPublic := Some True\<rparr>) = Some ''alice''"
    "p_ownerId alice_project = Some ''alice''" "s_ownerId alice_session = Some ''alice''"
    by (simp_all add: alice_project_def alice_session_def)
  show "fst (GET_project example_env (request_of ''tok-bob'' ''p1'' None)
             (project_store (alice_project\<lparr>p_isPublic := Some True\<rparr>)))
       = json_response 200 (ProjectDetail
           \<lparr>pd_projectId = ''p1'', pd_ownerId = Some ''alice'', pd_name = Some (JStr ''Shop''),
            pd_description = None, pd_createdAt = 4, pd_updatedAt = 5, pd_sessionId = Some ''s1'',
            pd_storagePath = Some ''zips/shop.zip'', pd_previewURL = None, pd_isPublic = Some True\<rparr>)"
    by (simp add: verify_bob GET_project_def store_ops or_500_def attempt_healthy healthy_project_store
        Let_def)
       (simp add: request_of_def project_store_def alice_project_def serializeTimestamp_def)
  show "fst (PATCH_project example_env (request_of ''tok-bob'' ''p1'' None) (project_store alice_project))
       = error_response 500 ''Internal Server Error''"
    by (simp add: verify_bob PATCH_project_def Let_def)
       (simp add: request_of_def internal_error_def)
  show "verifyIdToken answering_agent_env ''tok-bob'' = Some ''bob''"
    by (simp add: answering_agent_env_def example_env_facts)
  show "sessions short_store = [(''s1'', alice_session)]"
    by (simp add: short_store_def empty_store_def)
  have e: "exchange answering_agent_env ''s1'' ''bob'' ''tok-bob'' ''hello'' short_store
     = (json_response 200 (AssistantMessage
          \<lparr>a_messageId = fst (last (messages (fst (snd (exchange answering_agent_env ''s1'' ''bob'' ''tok-bob'' ''hello'' short_store))) ''s1'')),
           a_text = JStr ''hi there'', a_next_actions = None\<rparr>),
        snd (exchange answering_agent_env ''s1'' ''bob'' ''tok-bob'' ''hello'' short_store))"
    using exchange_healthy[OF healthy_short_store, of "''s1''" answering_agent_env "''bob''" "''tok-bob''" "''hello''"]
    by (auto simp: bob_reply)
  have m: "messages (fst (snd (exchange answering_agent_env ''s1'' ''bob'' ''tok-bob'' ''hello'' short_store))) ''s1''
       = [(''m1'', user_message 7), (''m2'', user_message 3),
          (''auto-'', \<lparr>m_sender = User, m_text = JStr ''hello'', m_createdAt = 0, m_role = None,
                       m_metadata = None, m_next_actions = None\<rparr>),
          (''auto-i'', \<lparr>m_sender = Assistant, m_text = JStr ''hi there'', m_createdAt = 2,
                        m_role = None, m_metadata = None, m_next_actions = None\<rparr>)]"
    using exchange_stored[OF healthy_short_store _ short_store_facts(1), of answering_agent_env "''bob''" "''tok-bob''" "''hello''"]
    by (simp add: bob_reply short_store_facts auto_id_def)
  show "messages (fst (snd (POST_message answering_agent_env
             (request_of ''tok-bob'' ''s1'' (Some (JObj [(''message'', JStr ''hello'')]))) short_store))) ''s1''
       = [(''m1'', user_message 7), (''m2'', user_message 3),
          (''auto-'', \<lparr>m_sender = User, m_text = JStr ''hello'', m_createdAt = 0, m_role = None,
                       m_metadata = None, m_next_actions = None\<rparr>),
          (''auto-i'', \<lparr>m_sender = Assistant, m_text = JStr ''hi there'', m_createdAt = 2,
                        m_role = None, m_metadata = None, m_next_actions = None\<rparr>)]"
    unfolding bob_hello by (rule m)
  show "fst (POST_message answering_agent_env
             (request_of ''tok-bob'' ''s1'' (Some (JObj [(''message'', JStr ''hello'')]))) short_store)
       = json_response 200 (AssistantMessage
           \<lparr>a_messageId = ''auto-i'', a_text = JStr ''hi there'', a_next_actions = None\<rparr>)"
  proof -
    have "fst (exchange answering_agent_env ''s1'' ''bob'' ''tok-bob'' ''hello'' short_store)
       = json_response 200 (AssistantMessage
          \<lparr>a_messageId = fst (last (messages (fst (snd (exchange answering_agent_env ''s1'' ''bob'' ''tok-bob'' ''hello'' short_store))) ''s1'')),
           a_text = JStr ''hi there'', a_next_actions = None\<rparr>)"
      using e by (metis fst_conv)
    then show ?thesis unfolding bob_hello by (simp add: m)
  qed
  show "sessions (fst (snd (POST_message answering_agent_env
             (request_of ''tok-bob'' ''s1'' (Some (JObj [(''message'', JStr ''hello'')]))) short_store)))
       = [(''s1'', alice_session\<lparr>s_updatedAt := Some 3\<rparr>)]"
    unfolding bob_hello
    using exchange_touched[OF healthy_short_store _ short_store_facts(1), of answering_agent_env "''bob''" "''tok-bob''" "''hello''"]
    by (simp add: short_store_facts) (simp add: short_store_def empty_store_def numeral_3_eq_3)
qed


theorem non_owner_is_refused_witness:
  "fst (GET_session example_env (request_of ''tok-bob'' ''s1'' (Some (JObj []))) short_store)
       = error_response 403 ''Forbidden''
   \<and> fst (DELETE_session example_env (request_of ''tok-bob'' ''s1'' (Some (JObj []))) short_store)
       = error_response 403 ''Forbidden''
   \<and> fst (POST_generate example_env (request_of ''tok-bob'' ''s1'' (Some (JObj []))) short_store)
       = error_response 403 ''Forbidden or Session not found''
   \<and> sessions (snd (DELETE_session example_env (request_of ''tok-bob'' ''s1'' (Some (JObj []))) short_store))
       = [(''s1'', alice_session)]
   \<and> messages (snd (DELETE_session example_env (request_of ''tok-bob'' ''s1'' (Some (JObj []))) short_store)) ''s1''
       = [(''m1'', user_message 7), (''m2'', user_message 3)]
   \<and> fst (GET_project example_env (request_of ''tok-bob'' ''p1'' (Some (JObj [(''name'', JStr ''Mine'')])))
             (project_store alice_project)) = error_response 403 ''Forbidden''
   \<and> fst (PATCH_project example_env (request_of ''tok-bob'' ''p1'' (Some (JObj [(''name'', JStr ''Mine'')])))
             (project_store alice_project)) = error_response 403 ''Forbidden''
   \<and> fst (DELETE_project example_env (request_of ''tok-bob'' ''p1'' (Some (JObj [(''name'', JStr ''Mine'')])))
             (project_store alice_project)) = error_response 403 ''Forbidden''
   \<and> fst (GET_download example_env (request_of ''tok-bob'' ''p1'' (Some (JObj [(''name'', JStr ''Mine'')])))
             (project_store alice_project)) = error_response 403 ''Forbidden''
   \<and> projects (snd (PATCH_project example_env (request_of ''tok-bob'' ''p1'' (Some (JObj [(''name'', JStr ''Mine'')])))
             (project_store alice_project))) ''p1'' = Some alice_project
   \<and> projects (snd (DELETE_project example_env (request_of ''tok-bob'' ''p1'' (Some (JObj [(''name'', JStr ''Mine'')])))
             (project_store alice_project))) ''p1'' = Some alice_project
   \<and> fst (GET_project example_env (request_of ''tok-bob'' ''p1'' None)
             (project_store (alice_project\<lparr>p_isPublic := Some True\<rparr>)))
       = json_response 200 (ProjectDetail
           \<lparr>pd_projectId = ''p1'', pd_ownerId = Some ''alice'', pd_name = Some (JStr ''Shop''),
            pd_description = None, pd_createdAt = 4, pd_updatedAt = 5, pd_sessionId = Some ''s1'',
            pd_storagePath = Some ''zips/shop.zip'', pd_previewURL = None, pd_isPublic = Some True\<rparr>)
   \<and> fst (PATCH_project example_env (request_of ''tok-bob'' ''p1'' None) (project_store alice_project))
       = error_response 500 ''Internal Server Error''
   \<and> fst (POST_generate example_env (request_of ''tok-bob'' ''s1'' None) short_store)
       = error_response 500 ''Internal Server Error''"
proof -
  let ?rs = "request_of ''tok-bob'' ''s1'' (Some (JObj []))"
  let ?rp = "request_of ''tok-bob'' ''p1'' (Some (JObj [(''name'', JStr ''Mine'')]))"
  let ?rq = "request_of ''tok-bob'' ''p1'' None"
  let ?rn = "request_of ''tok-bob'' ''s1'' None"
  let ?pub = "alice_project\<lparr>p_isPublic := Some True\<rparr>"
  have s: "map_of (sessions short_store) (route_id ?rs) = Some alice_session \<and> s_ownerId alice_session \<noteq> Some ''bob''"
    by (simp add: request_of_def short_store_def empty_store_def alice_session_def)
  have p: "projects (project_store alice_project) (route_id ?rp) = Some alice_project
           \<and> p_ownerId alice_project \<noteq> Some ''bob''"
    "p_isPublic alice_project \<noteq> Some True"
    by (simp_all add: request_of_def project_store_def alice_project_def)
  have q: "projects (project_store ?pub) (route_id ?rq) = Some ?pub \<and> p_ownerId ?pub \<noteq> Some ''bob''"
    "p_isPublic ?pub = Some True \<and> p_createdAt ?pub = Some 4 \<and> p_updatedAt ?pub = Some 5"
    by (simp_all add: request_of_def project_store_def alice_project_def)
  have b: "body ?rs \<noteq> None" "body ?rp \<noteq> None \<and> body ?rp \<noteq> Some JNull"
    "body ?rq = None \<or> body ?rq = Some JNull" "body ?rn = None"
    "route_id ?rs \<noteq> []" "route_id ?rp \<noteq> []" "route_id ?rq \<noteq> []" "route_id ?rn \<noteq> []"
    by (simp_all add: request_of_def)
  note ts = non_owner_is_refused[OF verify_bob b(5), of short_store, THEN conjunct1, rule_format, OF s]
  note tp = non_owner_is_refused[OF verify_bob b(6), of "project_store alice_project",
      THEN conjunct2, THEN conjunct1, rule_format, OF p(1)]
  note tq = non_owner_is_refused[OF verify_bob b(7), of "project_store ?pub",
      THEN conjunct2, THEN conjunct1, rule_format, OF q(1)]
  note tn = non_owner_is_refused[OF verify_bob b(7), of "project_store alice_project",
      THEN conjunct2, THEN conjunct2, THEN conjunct2, rule_format, OF b(3)]
  note tg = non_owner_is_refused[OF verify_bob b(8), of short_store,
      THEN conjunct2, THEN conjunct2, THEN conjunct1, rule_format, OF b(4)]
  have 1: "fst (GET_session example_env ?rs short_store) = error_response 403 ''Forbidden''
      \<and> fst (DELETE_session example_env ?rs short_store) = error_response 403 ''Forbidden''
      \<and> fst (POST_generate example_env ?rs short_store) = error_response 403 ''Forbidden or Session not found''"
    using ts healthy_short_store b(1) by blast
  have 2: "sessions (snd (DELETE_session example_env ?rs short_store)) = [(''s1'', alice_session)]
      \<and> messages (snd (DELETE_session example_env ?rs short_store)) ''s1''
          = [(''m1'', user_message 7), (''m2'', user_message 3)]"
    using ts by (simp add: same_documents_def short_store_facts) (simp add: short_store_def empty_store_def)
  have 3: "fst (GET_project example_env ?rp (project_store alice_project)) = error_response 403 ''Forbidden''
      \<and> fst (PATCH_project example_env ?rp (project_store alice_project)) = error_response 403 ''Forbidden''
      \<and> fst (DELETE_project example_env ?rp (project_store alice_project)) = error_response 403 ''Forbidden''
      \<and> fst (GET_download example_env ?rp (project_store alice_project)) = error_response 403 ''Forbidden''"
    using tp healthy_project_store[of alice_project] p(2) b(2) by blast
  have 4: "projects (snd (PATCH_project example_env ?rp (project_store alice_project))) ''p1'' = Some alice_project
      \<and> projects (snd (DELETE_project example_env ?rp (project_store alice_project))) ''p1'' = Some alice_project"
    using tp by (simp add: same_documents_def) (simp add: project_store_def)
  have 5: "fst (GET_project example_env ?rq (project_store ?pub))
       = json_response 200 (ProjectDetail
           \<lparr>pd_projectId = ''p1'', pd_ownerId = Some ''alice'', pd_name = Some (JStr ''Shop''),
            pd_description = None, pd_createdAt = 4, pd_updatedAt = 5, pd_sessionId = Some ''s1'',
            pd_storagePath = Some ''zips/shop.zip'', pd_previewURL = None, pd_isPublic = Some True\<rparr>)"
    using tq healthy_project_store[of ?pub] q(2)
    by (simp add: request_of_def) (simp add: alice_project_def)
  have 6: "fst (PATCH_project example_env ?rq (project_store alice_project))
       = error_response 500 ''Internal Server Error''"
    using tn by (simp add: internal_error_def)
  have 7: "fst (POST_generate example_env ?rn short_store) = error_response 500 ''Internal Server Error''"
    using tg by (simp add: internal_error_def)
  from 1 2 3 4 5 6 7 show ?thesis by blast
qed
section \<open>The shape of the session documents the handlers write\<close>

lemma list_all_update:
  "list_all P al \<Longrightarrow> P (k, v) \<Longrightarrow> list_all P (AList.update k v al)"
  by (induction al) auto

lemma list_all_delete: "list_all P al \<Longrightarrow> list_all P (AList.delete k al)"
  by (induction al) auto

lemma wf_lookup: "sessions_wf db \<Longrightarrow> map_of (sessions db) sid = Some d \<Longrightarrow> session_wf d"
  by (fastforce simp: sessions_wf_def list_all_iff dest: map_of_SomeD)

lemma wf_attempt:
  assumes "sessions_wf db" "\<And>db1. sessions_wf db1 \<Longrightarrow> sessions_wf (snd (op db1))"
  shows "sessions_wf (snd (attempt op db))"
proof -
  have "sessions_wf (snd (fs_call db))"
    using assms(1) by (auto simp: fs_call_def sessions_wf_def split: list.splits)
  then show ?thesis using assms(2)
    by (auto simp: attempt_def sessions_wf_def split: prod.splits)
qed

lemma wf_touched: "session_wf d \<Longrightarrow> session_wf (d\<lparr>s_updatedAt := Some t\<rparr>)"
  by (simp add: session_wf_def)

lemma wf_new: "session_wf (new_session_doc uid title t)" "session_wf (ensured_session_doc sid uid t)"
  by (simp_all add: session_wf_def new_session_doc_def ensured_session_doc_def valid_status_def)

lemma wf_session_ops:
  assumes "sessions_wf db"
  shows "sessions_wf (snd (session_get sid db))"
    and "(\<And>t. session_wf (mk t)) \<Longrightarrow> sessions_wf (snd (session_set sid mk db))"
    and "(\<And>t. session_wf (mk t)) \<Longrightarrow> sessions_wf (snd (session_add mk db))"
    and "sessions_wf (snd (session_touch sid db))"
    and "sessions_wf (snd (session_delete sid db))"
    and "sessions_wf (snd (message_add sid mm db))"
    and "sessions_wf (snd (messages_limit_get sid n db))"
    and "sessions_wf (snd (batch_delete sid ids db))"
proof -
  show "sessions_wf (snd (session_get sid db))"
    unfolding session_get_def by (rule wf_attempt[OF assms]) simp
  show "(\<And>t. session_wf (mk t)) \<Longrightarrow> sessions_wf (snd (session_set sid mk db))"
    unfolding session_set_def
    by (rule wf_attempt[OF assms]) (simp add: sessions_wf_def list_all_update)
  show "(\<And>t. session_wf (mk t)) \<Longrightarrow> sessions_wf (snd (session_add mk db))"
    unfolding session_add_def
    by (rule wf_attempt[OF assms]) (simp add: sessions_wf_def list_all_update)
  show "sessions_wf (snd (session_touch sid db))"
    unfolding session_touch_def
  proof (rule wf_attempt[OF assms])
    fix db1 assume w: "sessions_wf db1"
    show "sessions_wf (snd (case map_of (sessions db1) sid of
              None \<Rightarrow> (Inl ''NOT_FOUND'', db1)
            | Some d \<Rightarrow> (Inr (), db1\<lparr>sessions := AList.update sid (d\<lparr>s_updatedAt := Some (clock db1)\<rparr>) (sessions db1),
                                     clock := Suc (clock db1)\<rparr>)))"
    proof (cases "map_of (sessions db1) sid")
      case None
      then show ?thesis using w by simp
    next
      case (Some d)
      from wf_lookup[OF w Some] have "session_wf (d\<lparr>s_updatedAt := Some (clock db1)\<rparr>)"
        by (rule wf_touched)
      then show ?thesis using w Some by (simp add: sessions_wf_def list_all_update)
    qed
  qed
  show "sessions_wf (snd (session_delete sid db))"
    unfolding session_delete_def
    by (rule wf_attempt[OF assms]) (simp add: sessions_wf_def list_all_delete)
  show "sessions_wf (snd (message_add sid mm db))"
    unfolding message_add_def by (rule wf_attempt[OF assms]) (simp add: sessions_wf_def)
  show "sessions_wf (snd (messages_limit_get sid n db))"
    unfolding messages_limit_get_def by (rule wf_attempt[OF assms]) simp
  show "sessions_wf (snd (batch_delete sid ids db))"
    unfolding batch_delete_def by (rule wf_attempt[OF assms]) (simp add: sessions_wf_def)
qed

lemma wf_case:
  assumes "sessions_wf (snd m)"
    and "\<And>e db1. sessions_wf db1 \<Longrightarrow> sessions_wf (snd (h e db1))"
    and "\<And>a db1. sessions_wf db1 \<Longrightarrow> sessions_wf (snd (k a db1))"
  shows "sessions_wf (snd (case m of (Inl e, db1) \<Rightarrow> h e db1 | (Inr a, db1) \<Rightarrow> k a db1))"
  using assms by (cases m; cases "fst m") auto

lemma wf_addMessageToSession:
  "sessions_wf db \<Longrightarrow> sessions_wf (snd (addMessageToSession sid sndr txt na md db))"
  unfolding addMessageToSession_def
  apply (simp, intro impI wf_case wf_session_ops)
  apply simp_all
  done

lemma wf_addAdminMessageToSession:
  "sessions_wf db \<Longrightarrow> sessions_wf (snd (addAdminMessageToSession sid sndr txt db))"
  unfolding addAdminMessageToSession_def
  apply (intro wf_case wf_session_ops)
  apply simp_all
  done

lemma wf_case3:
  assumes "sessions_wf (snd m)"
    and "\<And>e db1. sessions_wf db1 \<Longrightarrow> sessions_wf (fst (snd (h e db1)))"
    and "\<And>a db1. sessions_wf db1 \<Longrightarrow> sessions_wf (fst (snd (k a db1)))"
  shows "sessions_wf (fst (snd (case m of (Inl e, db1) \<Rightarrow> h e db1 | (Inr a, db1) \<Rightarrow> k a db1)))"
  using assms by (cases m; cases "fst m") auto

lemma wf_or_500:
  assumes "sessions_wf (snd r)" and "\<And>a db1. sessions_wf db1 \<Longrightarrow> sessions_wf (snd (k a db1))"
  shows "sessions_wf (snd (or_500 r k))"
  using assms by (cases r; cases "fst r") (auto simp: or_500_def)

lemma wf_ensureSessionExists:
  "sessions_wf db \<Longrightarrow> sessions_wf (snd (ensureSessionExists sid uid db))"
  unfolding ensureSessionExists_def
  apply (rule wf_case)
    apply (erule wf_session_ops(1))
   apply simp
  apply (simp split: option.splits)
  apply (intro impI wf_case wf_session_ops wf_new)
    apply simp_all
  done

lemma wf_exchange:
  assumes "sessions_wf db"
  shows "sessions_wf (fst (snd (exchange env sid uid tok msg db)))"
proof -
  obtain reply sent where r: "agent_reply env sid tok msg [] = (reply, sent)"
    by (cases "agent_reply env sid tok msg []") auto
  show ?thesis
    unfolding exchange_def Let_def r prod.case
    using assms
    apply (intro wf_case3 wf_ensureSessionExists wf_addMessageToSession)
        apply simp_all
    done
qed

lemma wf_POST_message:
  "sessions_wf db \<Longrightarrow> sessions_wf (fst (snd (POST_message env req db)))"
  by (auto simp: POST_message_def Let_def wf_exchange split: option.splits json.splits)

lemma wf_addAdmin_pair:
  "sessions_wf db \<Longrightarrow> addAdminMessageToSession sid sndr txt db = (r, db') \<Longrightarrow> sessions_wf db'"
  using wf_addAdminMessageToSession[of db sid sndr "txt"] by simp

lemma wf_initial_exchange:
  "sessions_wf db \<Longrightarrow> sessions_wf (snd (initial_exchange env uid sid msg db))"
  by (auto simp: initial_exchange_def dest: wf_addAdmin_pair
      split: fetch_outcome.splits option.splits sum.splits prod.splits)

lemma wf_session_add_pair:
  "sessions_wf db \<Longrightarrow> session_add (new_session_doc uid title) db = (r, db') \<Longrightarrow> sessions_wf db'"
  using wf_session_ops(3)[of db "new_session_doc uid title"] by (simp add: wf_new)

lemma wf_initial_exchange_pair:
  "sessions_wf db \<Longrightarrow> initial_exchange env uid sid msg db = (r, db') \<Longrightarrow> sessions_wf db'"
  using wf_initial_exchange[of db env uid sid msg] by simp

lemma wf_POST_sessions:
  "sessions_wf db \<Longrightarrow> sessions_wf (snd (POST_sessions env req db))"
  by (auto simp: POST_sessions_def Let_def
      split: option.splits sum.splits prod.splits)
     (blast intro: wf_session_add_pair wf_addAdmin_pair wf_initial_exchange_pair)+

lemma wf_DELETE_session:
  "sessions_wf db \<Longrightarrow> sessions_wf (snd (DELETE_session env req db))"
  unfolding DELETE_session_def Let_def
  apply (simp split: option.splits)
  apply (intro conjI impI allI wf_or_500 wf_session_ops)
        apply (simp_all split: option.splits)
  apply (intro conjI impI allI wf_or_500 wf_session_ops)
     apply (simp_all split: if_splits)
  apply (intro conjI impI allI wf_or_500 wf_session_ops)
    apply (simp_all)
  done

lemma core_touch:
  "session_touch sid db = (r, db') \<Longrightarrow>
   map_option session_core (map_of (sessions db') k) = map_option session_core (map_of (sessions db) k)"
  by (auto simp: session_touch_def attempt_def fs_call_def update_conv' session_core_def
      split: list.splits if_splits option.splits)

lemma core_message_add:
  "message_add sid mm db = (r, db') \<Longrightarrow> sessions db' = sessions db"
  by (auto simp: message_add_def attempt_def fs_call_def split: list.splits if_splits)

lemma core_addAdmin:
  "addAdminMessageToSession sid sndr t db = (r, db') \<Longrightarrow>
   map_option session_core (map_of (sessions db') k) = map_option session_core (map_of (sessions db) k)"
  by (auto simp: addAdminMessageToSession_def split: prod.splits sum.splits
      dest!: core_message_add core_touch[where k = k])

lemma core_initial_exchange:
  "initial_exchange env uid sid msg db = (r, db') \<Longrightarrow>
   map_option session_core (map_of (sessions db') k) = map_option session_core (map_of (sessions db) k)"
  by (auto simp: initial_exchange_def
      split: fetch_outcome.splits option.splits sum.splits prod.splits if_splits
      dest!: core_addAdmin[where k = k])

lemma session_add_new:
  "session_add mk db = (Inr i, db') \<Longrightarrow> \<exists>t. map_of (sessions db') i = Some (mk t)"
  by (auto simp: session_add_def attempt_def fs_call_def update_conv'
      split: list.splits if_splits)

lemma truthy_value_Some: "truthy_value x = Some t \<Longrightarrow> truthy t"
  by (cases x) (auto split: if_splits)

lemma core_eq_new:
  "map_option session_core (map_of al k) = Some (session_core (new_session_doc uid title t)) \<Longrightarrow>
   \<exists>d. map_of al k = Some d \<and> s_status d = Some ''active'' \<and> s_title d = Some title
        \<and> s_ownerId d = Some uid"
  by (cases "map_of al k") (auto simp: session_core_def new_session_doc_def)

lemma POST_sessions_created:
  assumes "fst (POST_sessions env req db) = json_response 201 (SessionCreated sc)"
  shows "\<exists>d. map_of (sessions (snd (POST_sessions env req db))) (c_sessionId sc) = Some d
           \<and> s_status d = Some ''active'' \<and> s_title d = Some (c_title sc) \<and> truthy (c_title sc)
           \<and> s_ownerId d = Some (c_ownerId sc)"
proof -
  obtain a uid where a: "authorization req = Some a" "prefix ''Bearer '' a"
      "verifyIdToken env (bearer_token a) = Some uid"
    using assms
    by (auto simp: POST_sessions_def responses split: option.splits if_splits)
  define title where "title = (case truthy_value (opt_field ''title'' (body req)) of
                                Some t \<Rightarrow> t
                              | None \<Rightarrow> JStr (''Session started '' @ locale_now env))"
  have tt: "truthy title"
    by (auto simp: title_def dest: truthy_value_Some split: option.splits)
  obtain r1 db1 where 1: "session_add (new_session_doc uid title) db = (r1, db1)"
    by (cases "session_add (new_session_doc uid title) db") auto
  from assms a 1 obtain i where i: "r1 = Inr i"
    by (cases r1) (auto simp: POST_sessions_def Let_def responses title_def)
  from session_add_new[OF 1[unfolded i]] obtain t
    where n: "map_of (sessions db1) i = Some (new_session_doc uid title t)" by blast
  show ?thesis
  proof (cases "truthy_value (opt_field ''message'' (body req))")
    case None
    with assms a 1 i have "sc = \<lparr>c_sessionId = i, c_ownerId = uid, c_title = title,
                               c_status = ''active'', c_initialAssistantMessage = None\<rparr>"
      and "snd (POST_sessions env req db) = db1"
      by (auto simp: POST_sessions_def Let_def responses title_def)
    with n tt show ?thesis by (simp add: new_session_doc_def)
  next
    case (Some msg)
    obtain r2 db2 where 2: "addAdminMessageToSession i User msg db1 = (r2, db2)"
      by (cases "addAdminMessageToSession i User msg db1") auto
    from assms a 1 i Some 2 obtain m where m: "r2 = Inr m"
      by (cases r2) (auto simp: POST_sessions_def Let_def responses title_def)
    obtain reply db3 where 3: "initial_exchange env uid i msg db2 = (reply, db3)"
      by (cases "initial_exchange env uid i msg db2") auto
    from assms a 1 i Some 2 m 3 have sc: "sc = \<lparr>c_sessionId = i, c_ownerId = uid, c_title = title,
                               c_status = ''active'', c_initialAssistantMessage = reply\<rparr>"
      and fin: "snd (POST_sessions env req db) = db3"
      by (auto simp: POST_sessions_def Let_def responses title_def)
    have "map_option session_core (map_of (sessions db3) i)
            = Some (session_core (new_session_doc uid title t))"
      using core_initial_exchange[OF 3, of i] core_addAdmin[OF 2, of i] n by simp
    from core_eq_new[OF this] show ?thesis using sc fin tt by simp
  qed
qed

lemma ensureSessionExists_created:
  "map_of (sessions db) sid = None \<Longrightarrow> ensureSessionExists sid uid db = (Inr (), db') \<Longrightarrow>
   \<exists>t. map_of (sessions db') sid = Some (ensured_session_doc sid uid t)"
  by (auto simp: ensureSessionExists_def session_get_def session_set_def attempt_def fs_call_def
      update_conv' split: list.splits if_splits option.splits)

lemma GET_sessions_statuses:
  assumes "sessions_wf db" "fst (GET_sessions env req db) = json_response 200 (SessionList ls)"
  shows "\<forall>l \<in> set ls. valid_status (Some (l_status l))"
proof -
  have sub: "set ls \<subseteq> session_summary_of ` set (sessions db)"
    using assms(2)
    by (auto simp: GET_sessions_def sessions_of_owner_def attempt_def fs_call_def responses
        split: option.splits if_splits list.splits)
  have "\<And>e. e \<in> set (sessions db) \<Longrightarrow> valid_status (Some (l_status (session_summary_of e)))"
    using assms(1)
    by (auto simp: sessions_wf_def list_all_iff session_wf_def valid_status_def session_summary_of_def
        split: option.splits)
  then show ?thesis using sub by auto
qed

lemma sessions_wf_short_store: "sessions_wf short_store"
  by (simp add: sessions_wf_def short_store_def empty_store_def session_wf_def alice_session_def
      valid_status_def)

text \<open>
  Claim C6, as the code has it. If every session document has a status among
  \<open>active\<close>, \<open>archived\<close>, \<open>completed\<close> and both timestamps, this is still so
  after POST /api/sessions, after a message is posted and after a session is
  deleted. POST /api/sessions creates its document with status \<open>active\<close>, both
  timestamps and a title (the request's, or a generated one);
  \<open>ensureSessionExists\<close> creates a missing document with status \<open>active\<close> and
  both timestamps, but with no title. The list endpoint reports a status among
  the three for every session, and \<open>active\<close> for a document without one.
\<close>

theorem session_documents_shape:
  assumes wf: "sessions_wf db"
  shows "sessions_wf (snd (POST_sessions env req db))
       \<and> sessions_wf (fst (snd (POST_message env req db)))
       \<and> sessions_wf (snd (DELETE_session env req db))
       \<and> (\<forall>sc. fst (POST_sessions env req db) = json_response 201 (SessionCreated sc) \<longrightarrow>
            (\<exists>d. map_of (sessions (snd (POST_sessions env req db))) (c_sessionId sc) = Some d
               \<and> s_status d = Some ''active'' \<and> s_title d = Some (c_title sc) \<and> truthy (c_title sc)
               \<and> s_createdAt d \<noteq> None \<and> s_updatedAt d \<noteq> None))
       \<and> (\<forall>sid uid db'. map_of (sessions db) sid = None \<and> ensureSessionExists sid uid db = (Inr (), db') \<longrightarrow>
            (\<exists>d. map_of (sessions db') sid = Some d
               \<and> s_status d = Some ''active'' \<and> s_title d = None
               \<and> s_createdAt d \<noteq> None \<and> s_updatedAt d \<noteq> None))
       \<and> (\<forall>ls. fst (GET_sessions env req db) = json_response 200 (SessionList ls) \<longrightarrow>
            (\<forall>l \<in> set ls. valid_status (Some (l_status l))))
       \<and> (\<forall>i d. s_status d = None \<longrightarrow> l_status (session_summary_of (i, d)) = ''active'')"
proof (intro conjI allI impI ballI)
  show "sessions_wf (snd (POST_sessions env req db))" using wf by (rule wf_POST_sessions)
  show "sessions_wf (fst (snd (POST_message env req db)))" using wf by (rule wf_POST_message)
  show "sessions_wf (snd (DELETE_session env req db))" using wf by (rule wf_DELETE_session)
next
  fix sc assume c: "fst (POST_sessions env req db) = json_response 201 (SessionCreated sc)"
  from POST_sessions_created[OF c] obtain d where
    d: "map_of (sessions (snd (POST_sessions env req db))) (c_sessionId sc) = Some d"
       "s_status d = Some ''active''" "s_title d = Some (c_title sc)" "truthy (c_title sc)"
    by blast
  from wf_lookup[OF wf_POST_sessions[OF wf] d(1)] have "s_createdAt d \<noteq> None \<and> s_updatedAt d \<noteq> None"
    by (simp add: session_wf_def)
  with d show "\<exists>d. map_of (sessions (snd (POST_sessions env req db))) (c_sessionId sc) = Some d
               \<and> s_status d = Some ''active'' \<and> s_title d = Some (c_title sc) \<and> truthy (c_title sc)
               \<and> s_createdAt d \<noteq> None \<and> s_updatedAt d \<noteq> None"
    by blast
next
  fix sid uid db'
  assume "map_of (sessions db) sid = None \<and> ensureSessionExists sid uid db = (Inr (), db')"
  then obtain t where "map_of (sessions db') sid = Some (ensured_session_doc sid uid t)"
    using ensureSessionExists_created by blast
  then show "\<exists>d. map_of (sessions db') sid = Some d
               \<and> s_status d = Some ''active'' \<and> s_title d = None
               \<and> s_createdAt d \<noteq> None \<and> s_updatedAt d \<noteq> None"
    by (simp add: ensured_session_doc_def)
next
  fix ls l assume "fst (GET_sessions env req db) = json_response 200 (SessionList ls)" "l \<in> set ls"
  then show "valid_status (Some (l_status l))"
    using GET_sessions_statuses[OF wf] by blast
next
  fix i :: string and d :: session_doc assume "s_status d = None"
  then show "l_status (session_summary_of (i, d)) = ''active''"
    by (simp add: session_summary_of_def)
qed

theorem session_documents_shape_witness:
  "sessions_wf short_store
   \<and> sessions_wf (snd (POST_sessions failing_agent_env titled_request short_store))
   \<and> sessions_wf (fst (snd (POST_message failing_agent_env titled_request short_store)))
   \<and> sessions_wf (snd (DELETE_session failing_agent_env titled_request short_store))
   \<and> map_option s_status
        (map_of (sessions (snd (POST_sessions failing_agent_env titled_request short_store))) (auto_id 0))
       = Some (Some ''active'')
   \<and> map_option s_title
        (map_of (sessions (snd (POST_sessions failing_agent_env titled_request short_store))) (auto_id 0))
       = Some (Some (JStr ''Trip''))
   \<and> map_option s_status
        (map_of (sessions (snd (ensureSessionExists ''s9'' ''alice'' short_store))) ''s9'')
       = Some (Some ''active'')
   \<and> valid_status (Some (l_status (session_summary_of (''s1'', alice_session))))
   \<and> l_status (session_summary_of (''s1'', alice_session\<lparr>s_status := None\<rparr>)) = ''active''"
proof -
  note t = session_documents_shape[OF sessions_wf_short_store, of failing_agent_env titled_request]
  have c: "fst (POST_sessions failing_agent_env titled_request short_store)
        = json_response 201 (SessionCreated
            \<lparr>c_sessionId = auto_id 0, c_ownerId = ''alice'', c_title = JStr ''Trip'',
             c_status = ''active'', c_initialAssistantMessage = None\<rparr>)"
    by (simp add: POST_sessions_def titled_request_def request_of_def bearer_token_def
        failing_agent_env_def example_route_env_def store_ops attempt_def fs_call_def
        short_store_def empty_store_def Let_def)
  have e: "map_of (sessions short_store) ''s9'' = None
        \<and> ensureSessionExists ''s9'' ''alice'' short_store
            = (Inr (), snd (ensureSessionExists ''s9'' ''alice'' short_store))"
    by (simp add: ensureSessionExists_def store_ops attempt_def fs_call_def short_store_def
        empty_store_def)
  have g: "fst (GET_sessions failing_agent_env titled_request short_store)
        = json_response 200 (SessionList [session_summary_of (''s1'', alice_session)])"
    by (simp add: GET_sessions_def titled_request_def request_of_def bearer_token_def
        failing_agent_env_def example_route_env_def store_ops attempt_def fs_call_def
        short_store_def empty_store_def alice_session_def)
  from t c have 1: "map_option s_status
        (map_of (sessions (snd (POST_sessions failing_agent_env titled_request short_store))) (auto_id 0))
       = Some (Some ''active'')
     \<and> map_option s_title
        (map_of (sessions (snd (POST_sessions failing_agent_env titled_request short_store))) (auto_id 0))
       = Some (Some (JStr ''Trip''))"
    by fastforce
  from t e have 2: "map_option s_status
        (map_of (sessions (snd (ensureSessionExists ''s9'' ''alice'' short_store))) ''s9'')
       = Some (Some ''active'')"
    by fastforce
  from t g have 3: "valid_status (Some (l_status (session_summary_of (''s1'', alice_session))))"
    by fastforce
  from t have 4: "l_status (session_summary_of (''s1'', alice_session\<lparr>s_status := None\<rparr>)) = ''active''"
    by simp
  from t 1 2 3 4 sessions_wf_short_store show ?thesis by blast
qed

text \<open>The claim as first stated fails: the session document that the
  messages flow creates on the first message has no title.\<close>

theorem untitled_session_counterexample:
  "map_of (sessions empty_store) ''s9'' = None
   \<and> status (fst (POST_message failing_agent_env first_message_request empty_store)) = 200
   \<and> map_option s_title
        (map_of (sessions (fst (snd (POST_message failing_agent_env first_message_request empty_store)))) ''s9'')
       = Some None
   \<and> \<not> list_all (\<lambda>e. session_as_specified (snd e))
          (sessions (fst (snd (POST_message failing_agent_env first_message_request empty_store))))"
  by (simp add: POST_message_def first_message_request_def request_of_def bearer_token_def
      failing_agent_env_def example_route_env_def exchange_def ensureSessionExists_def
      addMessageToSession_def store_ops attempt_def fs_call_def empty_store_def Let_def
      ensured_session_doc_def session_as_specified_def agent_reply_def fetch_def is_ok_def
      handleAgentUnavailable_def proxy_request_def responses)


section \<open>Extracting the reply text from the agent's answer\<close>











































end
